theory Spec2Isabelle
  imports Complex_Main
begin

section \<open>Data model of the landmark store (database.py)\<close>

text \<open>
  The SQLite tables of \<^verbatim>\<open>Database.init_database\<close> are lists of rows in insertion
  order. Integer columns are Python/SQLite integers (\<open>int\<close>), the \<^verbatim>\<open>REAL\<close> distance
  column and every Python float is an exact \<open>real\<close>: the literal \<^verbatim>\<open>0.7\<close> is \<open>7/10\<close>.
  A keypoint is the tuple that \<^verbatim>\<open>save_frame\<close> pickles
  (\<^verbatim>\<open>pt, size, angle, response, octave, class_id\<close>); a descriptor set is the matrix of
  byte rows that ORB returns. Pickling and unpickling are the identity.
\<close>

type_synonym keypoint = "(real \<times> real) \<times> real \<times> real \<times> real \<times> int \<times> int"

type_synonym descriptors = "nat list list"

record location_row =
  loc_id :: int
  loc_name :: string
  created_at :: nat

record frame_row =
  frame_id :: int
  frame_location_id :: int
  sequence_number :: int
  image_path :: string
  keypoints :: "keypoint list"
  descriptors :: "descriptors option"

record node_row =
  node_id :: int
  node_location_id :: int
  node_frame_id :: int
  position_index :: int

record edge_row =
  from_node :: int
  to_node :: int
  distance :: real

record database =
  locations :: "location_row list"
  frames :: "frame_row list"
  graph_nodes :: "node_row list"
  graph_edges :: "edge_row list"

text \<open>
  \<^verbatim>\<open>INTEGER PRIMARY KEY AUTOINCREMENT\<close>: the new row id is one more than the largest id
  in the table (no row is ever deleted by this program), 1 in an empty table.
\<close>

definition lastrowid :: "int list \<Rightarrow> int" where
  "lastrowid ids = fold max ids 0 + 1"

definition init_database :: database where
  "init_database = \<lparr>locations = [], frames = [], graph_nodes = [], graph_edges = []\<rparr>"

text \<open>
  \<^verbatim>\<open>save_location\<close>: the insert fails on the \<^verbatim>\<open>UNIQUE\<close> name (IntegrityError) and then
  the id of the existing row is returned. \<open>now\<close> is \<^verbatim>\<open>CURRENT_TIMESTAMP\<close>.
\<close>

definition save_location :: "database \<Rightarrow> nat \<Rightarrow> string \<Rightarrow> int \<times> database" where
  "save_location db now name =
     (case find (\<lambda>r. loc_name r = name) (locations db) of
        Some r \<Rightarrow> (loc_id r, db)
      | None \<Rightarrow>
          (let location_id = lastrowid (map loc_id (locations db))
           in (location_id,
               db\<lparr>locations := locations db @
                    [\<lparr>loc_id = location_id, loc_name = name, created_at = now\<rparr>]\<rparr>)))"

text \<open>
  \<^verbatim>\<open>save_frame\<close>: one row in \<^verbatim>\<open>frames\<close>, one row in \<^verbatim>\<open>graph_nodes\<close>, and, when
  \<^verbatim>\<open>sequence_number > 0\<close> and a node of the location has the previous position index
  (\<^verbatim>\<open>fetchone\<close>: the first such row), the two directed edge rows of distance 0.7.
  The new node id is fresh, so the primary key \<^verbatim>\<open>(from_node, to_node)\<close> of
  \<^verbatim>\<open>graph_edges\<close> is never violated by the two inserts.
\<close>

definition save_frame ::
  "database \<Rightarrow> int \<Rightarrow> int \<Rightarrow> string \<Rightarrow> keypoint list \<Rightarrow> descriptors option \<Rightarrow> int \<times> database" where
  "save_frame db location_id sequence_no path kps descs =
     (let fid = lastrowid (map frame_id (frames db));
          db1 = db\<lparr>frames := frames db @
                  [\<lparr>frame_id = fid, frame_location_id = location_id,
                    sequence_number = sequence_no, image_path = path,
                    keypoints = kps, descriptors = descs\<rparr>]\<rparr>;
          nid = lastrowid (map node_id (graph_nodes db1));
          db2 = db1\<lparr>graph_nodes := graph_nodes db1 @
                  [\<lparr>node_id = nid, node_location_id = location_id,
                    node_frame_id = fid, position_index = sequence_no\<rparr>]\<rparr>;
          db3 =
            (if sequence_no > 0 then
               (case find (\<lambda>n. node_location_id n = location_id \<and>
                                 position_index n = sequence_no - 1) (graph_nodes db2) of
                  Some prev_node \<Rightarrow>
                    db2\<lparr>graph_edges := graph_edges db2 @
                      [\<lparr>from_node = node_id prev_node, to_node = nid, distance = 7 / 10\<rparr>,
                       \<lparr>from_node = nid, to_node = node_id prev_node, distance = 7 / 10\<rparr>]\<rparr>
                | None \<Rightarrow> db2)
             else db2)
      in (fid, db3))"

text \<open>
  \<^verbatim>\<open>get_location_frames\<close>: the frames joined with the location of that name, ordered by
  sequence number (rows with equal sequence numbers stay in insertion order). The result
  rows are the dictionaries \<^verbatim>\<open>{id, sequence, path, keypoints, descriptors}\<close>, which are
  the columns of \<open>frame_row\<close>.
\<close>

definition location_ids :: "database \<Rightarrow> string \<Rightarrow> int list" where
  "location_ids db name = map loc_id (filter (\<lambda>l. loc_name l = name) (locations db))"

definition get_location_frames :: "database \<Rightarrow> string \<Rightarrow> frame_row list" where
  "get_location_frames db name =
     sort_key sequence_number
       (filter (\<lambda>f. frame_location_id f \<in> set (location_ids db name)) (frames db))"

text \<open>
  \<^verbatim>\<open>get_all_locations\<close>: the names, newest first. Rows created in the same second come in
  an order SQLite does not fix; the callers only test membership.
\<close>

definition get_all_locations :: "database \<Rightarrow> string list" where
  "get_all_locations db = map loc_name (rev (sort_key created_at (locations db)))"

text \<open>
  \<^verbatim>\<open>get_navigation_graph\<close>: the node dictionary (in dictionary order: ascending position
  index) as an association list from node id to \<^verbatim>\<open>(position, frame_id)\<close>, and the edge
  triples whose source node belongs to the location.
\<close>

type_synonym node_dict = "(int \<times> (int \<times> int)) list"

type_synonym edge_list = "(int \<times> int \<times> real) list"

definition dict_set :: "('k \<times> 'v) list \<Rightarrow> 'k \<Rightarrow> 'v \<Rightarrow> ('k \<times> 'v) list" where
  "dict_set d k v = (if k \<in> fst ` set d then map (\<lambda>(k', v'). if k' = k then (k', v) else (k', v')) d
                     else d @ [(k, v)])"

definition get_navigation_graph :: "database \<Rightarrow> string \<Rightarrow> node_dict \<times> edge_list" where
  "get_navigation_graph db name =
     (let rows = sort_key position_index
                   (filter (\<lambda>n. node_location_id n \<in> set (location_ids db name)) (graph_nodes db));
          nodes = fold (\<lambda>r d. dict_set d (node_id r) (position_index r, node_frame_id r)) rows [];
          edges = map (\<lambda>e. (from_node e, to_node e, distance e))
                    (filter (\<lambda>e. \<exists>n \<in> set (graph_nodes db). node_id n = from_node e \<and>
                                   node_location_id n \<in> set (location_ids db name))
                       (graph_edges db))
      in (nodes, edges))"

section \<open>Localizer (localization.py)\<close>

text \<open>
  The ORB extractor and the brute-force matcher are OpenCV capabilities and are
  parameters: \<open>extract\<close> maps a camera frame to its keypoints and (optional) descriptor
  set, \<open>matcher\<close> maps the live and a stored descriptor set to the distances of the
  matches that \<^verbatim>\<open>BFMatcher.match\<close> returns.
\<close>

definition confidence_threshold :: nat where
  "confidence_threshold = 30"

definition good_matches :: "real list \<Rightarrow> real list" where
  "good_matches matches = filter (\<lambda>d. d < 50) matches"

text \<open>The loop state is \<^verbatim>\<open>(best_match, best_match_count, best_sequence)\<close>.\<close>

fun localize_loop ::
  "(descriptors \<Rightarrow> real list) \<Rightarrow> frame_row list \<Rightarrow>
     int option \<times> nat \<times> int \<Rightarrow> int option \<times> nat \<times> int" where
  "localize_loop match_live [] best = best"
| "localize_loop match_live (frame_data # rest) (best_match, best_match_count, best_sequence) =
     (case descriptors frame_data of
        None \<Rightarrow> localize_loop match_live rest (best_match, best_match_count, best_sequence)
      | Some saved_desc \<Rightarrow>
          (if length (good_matches (match_live saved_desc)) > best_match_count
           then localize_loop match_live rest
                  (Some (frame_id frame_data),
                   length (good_matches (match_live saved_desc)),
                   sequence_number frame_data)
           else localize_loop match_live rest (best_match, best_match_count, best_sequence)))"

definition localize ::
  "('img \<Rightarrow> keypoint list \<times> descriptors option) \<Rightarrow> (descriptors \<Rightarrow> descriptors \<Rightarrow> real list) \<Rightarrow>
     database \<Rightarrow> 'img \<Rightarrow> string \<Rightarrow> int option \<times> nat \<times> int option" where
  "localize extract matcher db current_frame location_name =
     (case extract current_frame of
        (current_kp, None) \<Rightarrow> (None, 0, None)
      | (current_kp, Some current_desc) \<Rightarrow>
          (if length current_kp < 10 then (None, 0, None)
           else
             (let saved_frames = get_location_frames db location_name
              in if saved_frames = [] then (None, 0, None)
                 else
                   (case localize_loop (matcher current_desc) saved_frames (None, 0, 0) of
                      (best_match, confidence, best_sequence) \<Rightarrow>
                        if confidence \<ge> confidence_threshold
                        then (best_match, confidence, Some best_sequence)
                        else (None, confidence, None)))))"

text \<open>
  Notions used to state the properties of the localizer. The match score of a stored
  frame is stated in the words of the specification, not through \<open>good_matches\<close>: the
  number of distances below 50 among the matches the matcher returns for the frame (a
  frame without descriptors is skipped by the loop and never beats the initial count 0).
  Then the best score of a frame list, and "\<open>f\<close> is the first frame of
  \<open>pre @ f # post\<close> with the highest score".
\<close>

definition match_score :: "(descriptors \<Rightarrow> real list) \<Rightarrow> frame_row \<Rightarrow> nat" where
  "match_score match_live f =
     (case descriptors f of
        None \<Rightarrow> 0
      | Some d \<Rightarrow> length (filter (\<lambda>x. x < 50) (match_live d)))"

definition best_score :: "(descriptors \<Rightarrow> real list) \<Rightarrow> frame_row list \<Rightarrow> nat" where
  "best_score match_live fs = Max (insert 0 (match_score match_live ` set fs))"

definition first_best :: "(descriptors \<Rightarrow> real list) \<Rightarrow> frame_row list \<Rightarrow> frame_row \<Rightarrow> frame_row list \<Rightarrow> bool" where
  "first_best match_live pre f post \<longleftrightarrow>
     (\<forall>g \<in> set pre. match_score match_live g < match_score match_live f) \<and>
     (\<forall>g \<in> set post. match_score match_live g \<le> match_score match_live f)"

section \<open>Navigator (navigation.py)\<close>

text \<open>
  A Python \<^verbatim>\<open>KeyError\<close> or \<^verbatim>\<open>IndexError\<close> is a value. List indexing follows Python:
  a negative index counts from the end.
\<close>

datatype py_error = KeyError | IndexError

definition py_index :: "'a list \<Rightarrow> int \<Rightarrow> py_error + 'a" where
  "py_index xs i =
     (if 0 \<le> i \<and> i < int (length xs) then Inr (xs ! nat i)
      else if i < 0 \<and> - int (length xs) \<le> i then Inr (xs ! nat (int (length xs) + i))
      else Inl IndexError)"

record navigator =
  current_path :: "int list"
  current_step :: int

definition navigator_init :: navigator where
  "navigator_init = \<lparr>current_path = [], current_step = 0\<rparr>"

text \<open>
  A score is a Python float that may be \<^verbatim>\<open>float('inf')\<close>. The dictionaries
  \<^verbatim>\<open>came_from\<close>, \<^verbatim>\<open>g_score\<close>, \<^verbatim>\<open>f_score\<close> and the adjacency dictionary are maps; an
  absent key raises \<^verbatim>\<open>KeyError\<close>.
\<close>

datatype score = Fin real | Inf

fun score_add :: "score \<Rightarrow> real \<Rightarrow> score" where
  "score_add (Fin x) d = Fin (x + d)"
| "score_add Inf d = Inf"

fun score_less :: "score \<Rightarrow> score \<Rightarrow> bool" where
  "score_less (Fin x) (Fin y) = (x < y)"
| "score_less (Fin x) Inf = True"
| "score_less Inf y = False"

record astar_state =
  open_set :: "(score \<times> int) list"
  came_from :: "int \<rightharpoonup> int"
  g_score :: "int \<rightharpoonup> score"
  f_score :: "int \<rightharpoonup> score"

text \<open>\<^verbatim>\<open>_heuristic\<close>: the position difference times 0.7.\<close>

definition heuristic :: "node_dict \<Rightarrow> int \<Rightarrow> int \<Rightarrow> py_error + real" where
  "heuristic nodes node1 node2 =
     (case map_of nodes node1 of
        None \<Rightarrow> Inl KeyError
      | Some (pos1, frame1) \<Rightarrow>
          (case map_of nodes node2 of
             None \<Rightarrow> Inl KeyError
           | Some (pos2, frame2) \<Rightarrow> Inr (\<bar>real_of_int (pos2 - pos1)\<bar> * (7 / 10))))"

text \<open>
  \<^verbatim>\<open>heapq\<close> on tuples \<^verbatim>\<open>(f_score, node_id)\<close>: \<^verbatim>\<open>heappop\<close> removes and returns the least
  tuple, compared first by score and then by node id. The position of the other entries
  in the heap array is not observable by \<^verbatim>\<open>_astar\<close> (it pops, pushes and tests
  membership), so the heap is the list of its entries.
\<close>

definition tuple_less :: "score \<times> int \<Rightarrow> score \<times> int \<Rightarrow> bool" where
  "tuple_less a b = (score_less (fst a) (fst b) \<or> (fst a = fst b \<and> snd a < snd b))"

fun heap_least :: "score \<times> int \<Rightarrow> (score \<times> int) list \<Rightarrow> score \<times> int" where
  "heap_least m [] = m"
| "heap_least m (x # xs) = heap_least (if tuple_less x m then x else m) xs"

definition heappop :: "(score \<times> int) list \<Rightarrow> (score \<times> int) \<times> (score \<times> int) list" where
  "heappop heap = (let m = heap_least (hd heap) (tl heap) in (m, remove1 m heap))"

definition heappush :: "(score \<times> int) list \<Rightarrow> score \<times> int \<Rightarrow> (score \<times> int) list" where
  "heappush heap item = heap @ [item]"

text \<open>
  \<^verbatim>\<open>_reconstruct_path\<close>: follow \<^verbatim>\<open>came_from\<close> back from the goal, then reverse. The loop
  does not end on a cyclic \<^verbatim>\<open>came_from\<close>; not returning is the value \<open>None\<close>.
\<close>

partial_function (option) reconstruct_loop :: "(int \<rightharpoonup> int) \<Rightarrow> int \<Rightarrow> int list \<Rightarrow> int list option" where
  "reconstruct_loop cf current path =
     (case cf current of
        None \<Rightarrow> Some path
      | Some previous \<Rightarrow> reconstruct_loop cf previous (path @ [previous]))"

definition reconstruct_path :: "(int \<rightharpoonup> int) \<Rightarrow> int \<Rightarrow> int list option" where
  "reconstruct_path cf current = map_option rev (reconstruct_loop cf current [current])"

text \<open>The \<^verbatim>\<open>for neighbor, distance in graph[current]\<close> loop of \<^verbatim>\<open>_astar\<close>.\<close>

fun relax_neighbors ::
  "node_dict \<Rightarrow> int \<Rightarrow> int \<Rightarrow> (int \<times> real) list \<Rightarrow> astar_state \<Rightarrow> py_error + astar_state" where
  "relax_neighbors nodes goal current [] st = Inr st"
| "relax_neighbors nodes goal current ((neighbor, edge_distance) # rest) st =
     (case g_score st current of
        None \<Rightarrow> Inl KeyError
      | Some g_current \<Rightarrow>
          (let tentative_g = score_add g_current edge_distance
           in case g_score st neighbor of
                None \<Rightarrow> Inl KeyError
              | Some g_neighbor \<Rightarrow>
                  if score_less tentative_g g_neighbor then
                    (case heuristic nodes neighbor goal of
                       Inl e \<Rightarrow> Inl e
                     | Inr h \<Rightarrow>
                         (let f = score_add tentative_g h;
                              st1 = st\<lparr>came_from := (came_from st)(neighbor \<mapsto> current),
                                       g_score := (g_score st)(neighbor \<mapsto> tentative_g),
                                       f_score := (f_score st)(neighbor \<mapsto> f)\<rparr>;
                              st2 = (if neighbor \<notin> snd ` set (open_set st1)
                                     then st1\<lparr>open_set := heappush (open_set st1) (f, neighbor)\<rparr>
                                     else st1)
                          in relax_neighbors nodes goal current rest st2))
                  else relax_neighbors nodes goal current rest st))"

text \<open>
  The \<^verbatim>\<open>while open_set\<close> loop of \<^verbatim>\<open>_astar\<close>. The result \<open>Some (Inr None)\<close> is the
  \<^verbatim>\<open>return None\<close> after the loop, \<open>Some (Inr (Some path))\<close> a returned path,
  \<open>Some (Inl e)\<close> a raised error and \<open>None\<close> a loop that never ends.
\<close>

partial_function (option) astar_loop ::
  "(int \<rightharpoonup> (int \<times> real) list) \<Rightarrow> node_dict \<Rightarrow> int \<Rightarrow> astar_state \<Rightarrow>
     (py_error + int list option) option" where
  "astar_loop graph nodes goal st =
     (if open_set st = [] then Some (Inr None)
      else
        (let popped = heappop (open_set st);
             current = snd (fst popped);
             st1 = st\<lparr>open_set := snd popped\<rparr>
         in if current = goal then
              (case reconstruct_path (came_from st1) current of
                 None \<Rightarrow> None
               | Some path \<Rightarrow> Some (Inr (Some path)))
            else
              (case graph current of
                 None \<Rightarrow> Some (Inl KeyError)
               | Some neighbors \<Rightarrow>
                   (case relax_neighbors nodes goal current neighbors st1 of
                      Inl e \<Rightarrow> Some (Inl e)
                    | Inr st2 \<Rightarrow> astar_loop graph nodes goal st2))))"

definition astar_init :: "(int \<rightharpoonup> (int \<times> real) list) \<Rightarrow> int \<Rightarrow> real \<Rightarrow> astar_state" where
  "astar_init graph start h =
     \<lparr>open_set = [(Fin 0, start)],
      came_from = Map.empty,
      g_score = (\<lambda>node. map_option (\<lambda>_. Inf) (graph node))(start \<mapsto> Fin 0),
      f_score = (\<lambda>node. map_option (\<lambda>_. Inf) (graph node))(start \<mapsto> Fin h)\<rparr>"

definition astar ::
  "(int \<rightharpoonup> (int \<times> real) list) \<Rightarrow> node_dict \<Rightarrow> int \<Rightarrow> int \<Rightarrow> (py_error + int list option) option" where
  "astar graph nodes start goal =
     (case heuristic nodes start goal of
        Inl e \<Rightarrow> Some (Inl e)
      | Inr h \<Rightarrow> astar_loop graph nodes goal (astar_init graph start h))"

text \<open>
  The adjacency dictionary of \<^verbatim>\<open>plan_route\<close>: every node starts with the empty list, every
  edge is appended to the list of its source (\<^verbatim>\<open>KeyError\<close> when the source is no node).
\<close>

fun add_edges :: "edge_list \<Rightarrow> (int \<rightharpoonup> (int \<times> real) list) \<Rightarrow> py_error + (int \<rightharpoonup> (int \<times> real) list)" where
  "add_edges [] graph = Inr graph"
| "add_edges ((from_n, to_n, edge_distance) # rest) graph =
     (case graph from_n of
        None \<Rightarrow> Inl KeyError
      | Some adjacent \<Rightarrow> add_edges rest (graph(from_n \<mapsto> adjacent @ [(to_n, edge_distance)])))"

definition build_graph :: "node_dict \<Rightarrow> edge_list \<Rightarrow> py_error + (int \<rightharpoonup> (int \<times> real) list)" where
  "build_graph nodes edges = add_edges edges (map_of (map (\<lambda>(node, info). (node, [])) nodes))"

text \<open>\<^verbatim>\<open>max(nodes.keys(), key=position)\<close>: the first key with the greatest position.\<close>

fun last_node :: "int \<times> (int \<times> int) \<Rightarrow> node_dict \<Rightarrow> int" where
  "last_node best [] = fst best"
| "last_node best (entry # rest) =
     last_node (if fst (snd entry) > fst (snd best) then entry else best) rest"

text \<open>The destination of \<^verbatim>\<open>plan_route\<close>: the given node, by default the last node.\<close>

definition route_destination :: "node_dict \<Rightarrow> int option \<Rightarrow> int" where
  "route_destination nodes destination_node_id =
     (case destination_node_id of
        None \<Rightarrow> last_node (hd nodes) (tl nodes)
      | Some d \<Rightarrow> d)"

text \<open>
  \<^verbatim>\<open>plan_route\<close> returns the result of the call (\<open>Inr None\<close> for \<^verbatim>\<open>None\<close>, \<open>Inl e\<close> for
  a raised error) together with the navigator after the call; \<open>None\<close> when the call
  does not return.
\<close>

definition plan_route ::
  "database \<Rightarrow> navigator \<Rightarrow> string \<Rightarrow> int \<Rightarrow> int option \<Rightarrow>
     ((py_error + int list option) \<times> navigator) option" where
  "plan_route db nav location_name current_node_id destination_node_id =
     (case get_navigation_graph db location_name of
        (nodes, edges) \<Rightarrow>
          if nodes = [] then Some (Inr None, nav)
          else
            (let destination = route_destination nodes destination_node_id
             in case build_graph nodes edges of
                  Inl e \<Rightarrow> Some (Inl e, nav)
                | Inr graph \<Rightarrow>
                    (case astar graph nodes current_node_id destination of
                       None \<Rightarrow> None
                     | Some (Inl e) \<Rightarrow> Some (Inl e, nav)
                     | Some (Inr None) \<Rightarrow> Some (Inr None, nav)
                     | Some (Inr (Some path)) \<Rightarrow>
                         if path \<noteq> []
                         then Some (Inr (Some path), nav\<lparr>current_path := path, current_step := 0\<rparr>)
                         else Some (Inr None, nav))))"

text \<open>
  Python's \<^verbatim>\<open>round(x, 1)\<close> and the format \<^verbatim>\<open>{x:.1f}\<close>: to the nearest tenth, a tie to the
  even tenth.
\<close>

definition round_half_even :: "real \<Rightarrow> int" where
  "round_half_even x =
     (let f = \<lfloor>x\<rfloor>; d = x - of_int f
      in if d < 1 / 2 then f else if 1 / 2 < d then f + 1 else if even f then f else f + 1)"


definition digit_char :: "nat \<Rightarrow> char" where
  "digit_char d = ''0123456789'' ! d"

fun str_nat :: "nat \<Rightarrow> string" where
  "str_nat n = (if n < 10 then [digit_char n] else str_nat (n div 10) @ [digit_char (n mod 10)])"

definition str_int :: "int \<Rightarrow> string" where
  "str_int i = (if i < 0 then CHR ''-'' # str_nat (nat (- i)) else str_nat (nat i))"

definition format_1f :: "real \<Rightarrow> string" where
  "format_1f x =
     (let tenths = round_half_even (\<bar>x\<bar> * 10)
      in (if x < 0 \<and> tenths \<noteq> 0 then ''-'' else '''') @
         str_int (tenths div 10) @ ''.'' @ str_int (tenths mod 10))"

text \<open>\<^verbatim>\<open>get_next_instruction\<close>; its argument \<^verbatim>\<open>nodes\<close> is not used.\<close>

definition get_next_instruction :: "navigator \<Rightarrow> node_dict \<Rightarrow> py_error + string" where
  "get_next_instruction nav nodes =
     (if current_path nav = [] \<or> current_step nav \<ge> int (length (current_path nav))
      then Inr ''Destination reached''
      else
        (case py_index (current_path nav) (current_step nav) of
           Inl e \<Rightarrow> Inl e
         | Inr current_node_id \<Rightarrow>
             if current_step nav = int (length (current_path nav)) - 1
             then Inr ''Destination reached''
             else
               (case py_index (current_path nav) (current_step nav + 1) of
                  Inl e \<Rightarrow> Inl e
                | Inr next_node_id \<Rightarrow>
                    (let distance = 7 / 10
                     in Inr (''Continue forward '' @ format_1f distance @ '' meters'')))))"

definition advance_step :: "navigator \<Rightarrow> bool \<times> navigator" where
  "advance_step nav =
     (if current_step nav < int (length (current_path nav)) - 1
      then (True, nav\<lparr>current_step := current_step nav + 1\<rparr>)
      else (False, nav))"

section \<open>Session state and request handlers (app.py)\<close>

text \<open>
  The module's globals \<^verbatim>\<open>app_state\<close>, \<^verbatim>\<open>db\<close> and \<^verbatim>\<open>navigator\<close> form the system state,
  together with two logs of effects: the texts handed to \<^verbatim>\<open>voice_handler.speak\<close> and the
  background threads that were started. A request handler maps the request's JSON object
  and the system state to its JSON response and the new system state.
\<close>

datatype mode = Idle | Mapping | Navigating

record obstacle =
  obstacle_class :: string
  obstacle_confidence :: real
  bbox :: "int \<times> int \<times> int \<times> int"
  obstacle_distance :: real
  priority :: int

record app_state =
  mode :: mode
  current_location :: "string option"
  mapping_frames :: int
  current_position :: "int option"
  localization_confidence :: real
  obstacles :: "obstacle list"
  navigation_instruction :: string
  destination :: "string option"

datatype thread = MappingLoop int | NavigationLoop "string option"

record system =
  app_state :: app_state
  db_store :: database
  navigator :: navigator
  spoken :: "string list"
  threads :: "thread list"

definition app_state_init :: app_state where
  "app_state_init =
     \<lparr>mode = Idle, current_location = None, mapping_frames = 0, current_position = None,
      localization_confidence = 0, obstacles = [], navigation_instruction = '''',
      destination = None\<rparr>"

definition system_init :: system where
  "system_init =
     \<lparr>app_state = app_state_init, db_store = init_database, navigator = navigator_init,
      spoken = [], threads = []\<rparr>"

type_synonym request = "string \<rightharpoonup> string"

datatype json_value = Str string | Null

type_synonym response = "(string \<times> json_value) list"

definition speak :: "string \<Rightarrow> system \<Rightarrow> system" where
  "speak text sys = sys\<lparr>spoken := spoken sys @ [text]\<rparr>"

definition start_thread :: "thread \<Rightarrow> system \<Rightarrow> system" where
  "start_thread t sys = sys\<lparr>threads := threads sys @ [t]\<rparr>"

text \<open>\<^verbatim>\<open>str(x)\<close> of an optional string, as an f-string prints it.\<close>

definition str_option :: "string option \<Rightarrow> string" where
  "str_option x = (case x of None \<Rightarrow> ''None'' | Some s \<Rightarrow> s)"

definition json_option :: "string option \<Rightarrow> json_value" where
  "json_option x = (case x of None \<Rightarrow> Null | Some s \<Rightarrow> Str s)"

definition start_mapping :: "nat \<Rightarrow> request \<Rightarrow> system \<Rightarrow> response \<times> system" where
  "start_mapping now data sys =
     (let location_name = (case data ''location_name'' of
                             None \<Rightarrow> ''unnamed_location''
                           | Some n \<Rightarrow> n);
          sys1 = sys\<lparr>app_state := (app_state sys)\<lparr>mode := Mapping,
                    current_location := Some location_name, mapping_frames := 0\<rparr>\<rparr>
      in case save_location (db_store sys1) now location_name of
           (location_id, db') \<Rightarrow>
             (let sys2 = start_thread (MappingLoop location_id) (sys1\<lparr>db_store := db'\<rparr>);
                  sys3 = speak (''Starting to map '' @ location_name) sys2
              in ([(''status'', Str ''success''),
                   (''message'', Str (''Mapping '' @ location_name))], sys3)))"

text \<open>
  One pass of the body of \<^verbatim>\<open>mapping_loop\<close> in which the capture timer has fired: \<open>cam\<close> is
  the result of \<^verbatim>\<open>camera.read()\<close> (\<open>None\<close> when the read fails). Writing the image file
  is not part of the state.
\<close>

definition mapping_tick ::
  "('img \<Rightarrow> keypoint list \<times> descriptors option) \<Rightarrow> int \<Rightarrow> 'img option \<Rightarrow> system \<Rightarrow> system" where
  "mapping_tick extract location_id cam sys =
     (case cam of
        None \<Rightarrow> sys
      | Some frame \<Rightarrow>
          (case extract frame of
             (kp, desc) \<Rightarrow>
               if desc \<noteq> None \<and> length kp > 50 then
                 (let frame_path = ''data/saved_frames/'' @ str_int location_id @ ''_'' @
                                     str_int (mapping_frames (app_state sys)) @ ''.jpg''
                  in case save_frame (db_store sys) location_id (mapping_frames (app_state sys))
                            frame_path kp desc of
                       (new_frame_id, db') \<Rightarrow>
                         sys\<lparr>db_store := db',
                             app_state := (app_state sys)\<lparr>mapping_frames :=
                                            mapping_frames (app_state sys) + 1\<rparr>\<rparr>)
               else sys))"

text \<open>
  \<^verbatim>\<open>mapping_loop\<close> over the camera reads of its successive captures; it ends when the
  mode is no longer \<^verbatim>\<open>'mapping'\<close>.
\<close>

fun mapping_loop ::
  "('img \<Rightarrow> keypoint list \<times> descriptors option) \<Rightarrow> int \<Rightarrow> 'img option list \<Rightarrow> system \<Rightarrow> system" where
  "mapping_loop extract location_id [] sys = sys"
| "mapping_loop extract location_id (cam # cams) sys =
     (if mode (app_state sys) = Mapping
      then mapping_loop extract location_id cams (mapping_tick extract location_id cam sys)
      else sys)"

definition stop_mapping :: "system \<Rightarrow> response \<times> system" where
  "stop_mapping sys =
     (if mode (app_state sys) = Mapping then
        (let location_name = current_location (app_state sys);
             frames_captured = mapping_frames (app_state sys);
             sys1 = sys\<lparr>app_state := (app_state sys)\<lparr>mode := Idle, current_location := None\<rparr>\<rparr>;
             sys2 = speak (''Mapping complete. Saved '' @ str_int frames_captured @
                           '' landmarks for '' @ str_option location_name) sys1
         in ([(''status'', Str ''success''),
              (''message'', Str (''Mapping complete: '' @ str_int frames_captured @ '' frames'')),
              (''location'', json_option location_name)], sys2))
      else ([(''status'', Str ''error''), (''message'', Str ''Not in mapping mode'')], sys))"

definition start_navigation :: "request \<Rightarrow> system \<Rightarrow> response \<times> system" where
  "start_navigation data sys =
     (let dest = data ''destination'';
          locations = get_all_locations (db_store sys)
      in if (case dest of None \<Rightarrow> True | Some d \<Rightarrow> d \<notin> set locations) then
           ([(''status'', Str ''error''), (''message'', Str ''Location not found'')],
            speak (''Location '' @ str_option dest @ '' not found'') sys)
         else
           (let sys1 = sys\<lparr>app_state := (app_state sys)\<lparr>mode := Navigating, destination := dest\<rparr>\<rparr>;
                sys2 = start_thread (NavigationLoop dest) sys1;
                sys3 = speak (''Navigating to '' @ str_option dest) sys2
            in ([(''status'', Str ''success''),
                 (''message'', Str (''Navigating to '' @ str_option dest))], sys3)))"

definition stop_navigation :: "system \<Rightarrow> response \<times> system" where
  "stop_navigation sys =
     (if mode (app_state sys) = Navigating then
        (let sys1 = sys\<lparr>app_state := (app_state sys)\<lparr>mode := Idle, destination := None\<rparr>\<rparr>;
             sys2 = sys1\<lparr>navigator := (navigator sys1)\<lparr>current_path := []\<rparr>\<rparr>;
             sys3 = speak ''Navigation stopped'' sys2
         in ([(''status'', Str ''success''), (''message'', Str ''Navigation stopped'')], sys3))
      else ([(''status'', Str ''error''), (''message'', Str ''Not in navigation mode'')], sys))"


text \<open>
  Session states that the four commands and the captures of a running mapping loop reach
  from the initial state, with any request bodies. A camera read is given by the features
  the extractor finds in it.
\<close>

inductive reachable :: "system \<Rightarrow> bool" where
  reachable_init: "reachable system_init"
| reachable_start_mapping: "reachable sys \<Longrightarrow> reachable (snd (start_mapping now data sys))"
| reachable_stop_mapping: "reachable sys \<Longrightarrow> reachable (snd (stop_mapping sys))"
| reachable_start_navigation: "reachable sys \<Longrightarrow> reachable (snd (start_navigation data sys))"
| reachable_stop_navigation: "reachable sys \<Longrightarrow> reachable (snd (stop_navigation sys))"
| reachable_mapping_tick:
    "reachable sys \<Longrightarrow> mode (app_state sys) = Mapping \<Longrightarrow>
     MappingLoop location_id \<in> set (threads sys) \<Longrightarrow>
     reachable (mapping_tick (\<lambda>features. features) location_id cam sys)"

text \<open>
  Notions used to state the properties of the handlers and of the mapping loop: the
  destination of a request is in the store's location list; a camera read is accepted by
  \<^verbatim>\<open>mapping_loop\<close> (\<^verbatim>\<open>desc is not None and len(kp) > 50\<close>); every position index below
  the frame counter has a node in the location; the nodes of a location at the position
  before a sequence index, in the order of their insertion.
\<close>

definition known_destination :: "request \<Rightarrow> system \<Rightarrow> bool" where
  "known_destination data sys \<longleftrightarrow>
     (case data ''destination'' of
        None \<Rightarrow> False
      | Some d \<Rightarrow> d \<in> set (get_all_locations (db_store sys)))"

definition accepted :: "('img \<Rightarrow> keypoint list \<times> descriptors option) \<Rightarrow> 'img option \<Rightarrow> bool" where
  "accepted extract cam =
     (case cam of
        None \<Rightarrow> False
      | Some frame \<Rightarrow> snd (extract frame) \<noteq> None \<and> length (fst (extract frame)) > 50)"

definition positions_mapped :: "system \<Rightarrow> int \<Rightarrow> bool" where
  "positions_mapped sys location_id \<longleftrightarrow>
     (\<forall>j \<in> set [0 .. mapping_frames (app_state sys) - 1].
        \<exists>n \<in> set (graph_nodes (db_store sys)).
          node_location_id n = location_id \<and> position_index n = j)"

definition previous_nodes :: "database \<Rightarrow> int \<Rightarrow> int \<Rightarrow> node_row list" where
  "previous_nodes db location_id sq =
     filter (\<lambda>n. node_location_id n = location_id \<and> position_index n = sq - 1) (graph_nodes db)"

section \<open>Path graphs and the invariant of the A* loop\<close>














section \<open>Example data\<close>

text \<open>
  A camera image is represented by the features the extractor finds in it. The example
  matcher returns one match for every stored descriptor row, at the distance the row
  holds. A stored example frame has \<open>n\<close> rows at distance 10 and \<open>far\<close> rows at
  distance 50, which is not below 50: its score is \<open>n\<close>, and the matcher returns
  \<open>n + far\<close> matches for it.
\<close>

definition example_extract :: "keypoint list \<times> descriptors option \<Rightarrow> keypoint list \<times> descriptors option" where
  "example_extract img = img"

definition example_matcher :: "descriptors \<Rightarrow> descriptors \<Rightarrow> real list" where
  "example_matcher current_desc saved_desc = map (\<lambda>row. real (sum_list row)) saved_desc"

definition example_keypoint :: keypoint where
  "example_keypoint = ((0, 0), 31, 0, 0, 0, -1)"

definition example_image :: "keypoint list \<times> descriptors option" where
  "example_image = (replicate 12 example_keypoint, Some (replicate 12 [0]))"

definition example_frame :: "int \<Rightarrow> int \<Rightarrow> nat \<Rightarrow> nat \<Rightarrow> frame_row" where
  "example_frame i s n far =
     \<lparr>frame_id = i, frame_location_id = 1, sequence_number = s, image_path = ''frame.jpg'',
      keypoints = replicate (n + far) example_keypoint,
      descriptors = Some (replicate n [10] @ replicate far [50])\<rparr>"

text \<open>
  In the example store the first frame has \<open>n\<close> matches below 50 and ten more at 50; with
  \<open>n = 31\<close> it has the most matches (41) and not the highest score (31 against 35).
\<close>

definition example_store :: "nat \<Rightarrow> database" where
  "example_store n =
     \<lparr>locations = [\<lparr>loc_id = 1, loc_name = ''kitchen'', created_at = 0\<rparr>],
      frames = [example_frame 1 0 n 10, example_frame 2 1 35 0, example_frame 3 2 35 0],
      graph_nodes = [], graph_edges = []\<rparr>"

text \<open>
  The scenario: the location "kitchen" is mapped with three captures of 80, 60 and 55
  keypoints, mapping is stopped, and navigation to "kitchen" is started. In
  \<open>kitchen_remapped\<close> the same location is mapped a second time.
\<close>

definition example_capture :: "nat \<Rightarrow> (keypoint list \<times> descriptors option) option" where
  "example_capture n = Some (replicate n example_keypoint, Some (replicate n [0]))"

definition kitchen_request :: request where
  "kitchen_request = [''location_name'' \<mapsto> ''kitchen'']"

definition kitchen_captures :: "(keypoint list \<times> descriptors option) option list" where
  "kitchen_captures = [example_capture 80, example_capture 60, example_capture 55]"

definition kitchen_mapping :: system where
  "kitchen_mapping = snd (start_mapping 0 kitchen_request system_init)"

definition kitchen_mapped :: system where
  "kitchen_mapped = mapping_loop example_extract 1 kitchen_captures kitchen_mapping"

definition kitchen_idle :: system where
  "kitchen_idle = snd (stop_mapping kitchen_mapped)"

definition kitchen_remapped :: system where
  "kitchen_remapped =
     mapping_loop example_extract 1 kitchen_captures
       (snd (start_mapping 1 kitchen_request kitchen_idle))"

definition kitchen_navigating :: system where
  "kitchen_navigating = snd (start_navigation [''destination'' \<mapsto> ''kitchen''] kitchen_idle)"

text \<open>
  The trip after the route from node 1 was planned and one instruction was spoken.
\<close>

definition kitchen_trip :: system where
  "kitchen_trip =
     (case plan_route (db_store kitchen_navigating) (navigator kitchen_navigating)
             ''kitchen'' 1 None of
        Some (result, nav) \<Rightarrow> kitchen_navigating\<lparr>navigator := snd (advance_step nav)\<rparr>
      | None \<Rightarrow> kitchen_navigating)"

text \<open>
  The first two captures of the kitchen mapping, one pass of the loop each.
\<close>

definition kitchen_first :: system where
  "kitchen_first = mapping_tick example_extract 1 (example_capture 80) kitchen_mapping"

definition kitchen_second :: system where
  "kitchen_second = mapping_tick example_extract 1 (example_capture 60) kitchen_first"

text \<open>
  Two overlapping mapping sessions: while the loop of "kitchen" (location 1) is running,
  mapping of "hall" (location 2) is started, which resets the frame counter and starts a
  second loop; the mode stays \<^verbatim>\<open>'mapping'\<close>, so the first loop goes on. Then the first
  loop saves a capture, and after it the second loop.
\<close>

definition hall_request :: request where
  "hall_request = [''location_name'' \<mapsto> ''hall'']"

definition two_loops :: system where
  "two_loops = snd (start_mapping 1 hall_request kitchen_mapping)"

definition two_loops_first :: system where
  "two_loops_first = mapping_tick example_extract 1 (example_capture 80) two_loops"

definition two_loops_second :: system where
  "two_loops_second = mapping_tick example_extract 2 (example_capture 60) two_loops_first"

section \<open>The example scenario, evaluated\<close>

lemma str_int_small: "str_int 0 = ''0''" "str_int 1 = ''1''" "str_int 2 = ''2''" "str_int 3 = ''3''"
  by (simp_all add: str_int_def digit_char_def)

lemma kitchen_mapping_state:
  "app_state kitchen_mapping = app_state_init\<lparr>mode := Mapping, current_location := Some ''kitchen''\<rparr>"
  "db_store kitchen_mapping =
     init_database\<lparr>locations := [\<lparr>loc_id = 1, loc_name = ''kitchen'', created_at = 0\<rparr>]\<rparr>"
  "threads kitchen_mapping = [MappingLoop 1]"
  "navigator kitchen_mapping = navigator_init"
  by (simp_all add: kitchen_mapping_def start_mapping_def kitchen_request_def system_init_def
      app_state_init_def save_location_def init_database_def lastrowid_def speak_def
      start_thread_def Let_def)

lemma kitchen_mapped_store:
  "graph_nodes (db_store kitchen_mapped) =
     [\<lparr>node_id = 1, node_location_id = 1, node_frame_id = 1, position_index = 0\<rparr>,
      \<lparr>node_id = 2, node_location_id = 1, node_frame_id = 2, position_index = 1\<rparr>,
      \<lparr>node_id = 3, node_location_id = 1, node_frame_id = 3, position_index = 2\<rparr>]"
  "graph_edges (db_store kitchen_mapped) =
     [\<lparr>from_node = 1, to_node = 2, distance = 7 / 10\<rparr>,
      \<lparr>from_node = 2, to_node = 1, distance = 7 / 10\<rparr>,
      \<lparr>from_node = 2, to_node = 3, distance = 7 / 10\<rparr>,
      \<lparr>from_node = 3, to_node = 2, distance = 7 / 10\<rparr>]"
  "map frame_id (frames (db_store kitchen_mapped)) = [1, 2, 3]"
  "map sequence_number (frames (db_store kitchen_mapped)) = [0, 1, 2]"
  "locations (db_store kitchen_mapped) = [\<lparr>loc_id = 1, loc_name = ''kitchen'', created_at = 0\<rparr>]"
  by (simp_all add: kitchen_mapped_def kitchen_captures_def example_capture_def mapping_tick_def
      example_extract_def kitchen_mapping_state save_frame_def lastrowid_def Let_def
      app_state_init_def init_database_def str_int_small)

lemma kitchen_mapped_state:
  "app_state kitchen_mapped =
     app_state_init\<lparr>mode := Mapping, current_location := Some ''kitchen'', mapping_frames := 3\<rparr>"
  "navigator kitchen_mapped = navigator_init"
  by (simp_all add: kitchen_mapped_def kitchen_captures_def example_capture_def mapping_tick_def
      example_extract_def kitchen_mapping_state save_frame_def lastrowid_def Let_def
      app_state_init_def init_database_def str_int_small)

lemma kitchen_idle_state:
  "app_state kitchen_idle = app_state_init\<lparr>mapping_frames := 3\<rparr>"
  "db_store kitchen_idle = db_store kitchen_mapped"
  "navigator kitchen_idle = navigator_init"
  by (simp_all add: kitchen_idle_def stop_mapping_def kitchen_mapped_state speak_def Let_def
      app_state_init_def)

lemma kitchen_navigating_state:
  "app_state kitchen_navigating =
     app_state_init\<lparr>mode := Navigating, mapping_frames := 3, destination := Some ''kitchen''\<rparr>"
  "db_store kitchen_navigating = db_store kitchen_mapped"
  "navigator kitchen_navigating = navigator_init"
  by (simp_all add: kitchen_navigating_def start_navigation_def kitchen_idle_state
      kitchen_mapped_store get_all_locations_def speak_def start_thread_def Let_def
      app_state_init_def)

lemma kitchen_graph:
  "get_navigation_graph (db_store kitchen_mapped) ''kitchen'' =
     ([(1, (0, 1)), (2, (1, 2)), (3, (2, 3))],
      [(1, 2, 7 / 10), (2, 1, 7 / 10), (2, 3, 7 / 10), (3, 2, 7 / 10)])"
  by (simp add: get_navigation_graph_def kitchen_mapped_store location_ids_def dict_set_def Let_def)

lemmas astar_eval = astar_def heuristic_def astar_init_def astar_loop.simps heappop_def
  tuple_less_def heappush_def reconstruct_path_def reconstruct_loop.simps
  build_graph_def route_destination_def Let_def

lemma kitchen_route:
  "plan_route (db_store kitchen_mapped) nav ''kitchen'' 1 None =
     Some (Inr (Some [1, 2, 3]), nav\<lparr>current_path := [1, 2, 3], current_step := 0\<rparr>)"
  by (simp add: plan_route_def kitchen_graph astar_eval)

lemma kitchen_trip_state:
  "app_state kitchen_trip = app_state kitchen_navigating"
  "navigator kitchen_trip = \<lparr>current_path = [1, 2, 3], current_step = 1\<rparr>"
  by (simp_all add: kitchen_trip_def kitchen_navigating_state kitchen_route advance_step_def
      navigator_init_def)

lemma kitchen_remapped_store:
  "graph_nodes (db_store kitchen_remapped) =
     [\<lparr>node_id = 1, node_location_id = 1, node_frame_id = 1, position_index = 0\<rparr>,
      \<lparr>node_id = 2, node_location_id = 1, node_frame_id = 2, position_index = 1\<rparr>,
      \<lparr>node_id = 3, node_location_id = 1, node_frame_id = 3, position_index = 2\<rparr>,
      \<lparr>node_id = 4, node_location_id = 1, node_frame_id = 4, position_index = 0\<rparr>,
      \<lparr>node_id = 5, node_location_id = 1, node_frame_id = 5, position_index = 1\<rparr>,
      \<lparr>node_id = 6, node_location_id = 1, node_frame_id = 6, position_index = 2\<rparr>]"
  "graph_edges (db_store kitchen_remapped) =
     [\<lparr>from_node = 1, to_node = 2, distance = 7 / 10\<rparr>,
      \<lparr>from_node = 2, to_node = 1, distance = 7 / 10\<rparr>,
      \<lparr>from_node = 2, to_node = 3, distance = 7 / 10\<rparr>,
      \<lparr>from_node = 3, to_node = 2, distance = 7 / 10\<rparr>,
      \<lparr>from_node = 1, to_node = 5, distance = 7 / 10\<rparr>,
      \<lparr>from_node = 5, to_node = 1, distance = 7 / 10\<rparr>,
      \<lparr>from_node = 2, to_node = 6, distance = 7 / 10\<rparr>,
      \<lparr>from_node = 6, to_node = 2, distance = 7 / 10\<rparr>]"
  "locations (db_store kitchen_remapped) = [\<lparr>loc_id = 1, loc_name = ''kitchen'', created_at = 0\<rparr>]"
  by (simp_all add: kitchen_remapped_def kitchen_captures_def example_capture_def mapping_tick_def
      example_extract_def start_mapping_def kitchen_request_def kitchen_idle_state
      kitchen_mapped_store save_location_def save_frame_def lastrowid_def speak_def
      start_thread_def Let_def app_state_init_def str_int_small)

lemma kitchen_remapped_graph:
  "get_navigation_graph (db_store kitchen_remapped) ''kitchen'' =
     ([(1, (0, 1)), (4, (0, 4)), (2, (1, 2)), (5, (1, 5)), (3, (2, 3)), (6, (2, 6))],
      [(1, 2, 7 / 10), (2, 1, 7 / 10), (2, 3, 7 / 10), (3, 2, 7 / 10),
       (1, 5, 7 / 10), (5, 1, 7 / 10), (2, 6, 7 / 10), (6, 2, 7 / 10)])"
  by (simp add: get_navigation_graph_def kitchen_remapped_store location_ids_def dict_set_def Let_def)

lemma kitchen_remapped_no_route:
  "plan_route (db_store kitchen_remapped) nav ''kitchen'' 4 None = Some (Inr None, nav)"
  by (simp add: plan_route_def kitchen_remapped_graph astar_eval)

lemma remapped_graph_built: "\<exists>graph. build_graph [(1, (0, 1)), (4, (0, 4)), (2, (1, 2)), (5, (1, 5)), (3, (2, 3)), (6, (2, 6))]
   [(1, 2, 7 / 10), (2, 1, 7 / 10), (2, 3, 7 / 10), (3, 2, 7 / 10),
       (1, 5, 7 / 10), (5, 1, 7 / 10), (2, 6, 7 / 10), (6, 2, 7 / 10)] = Inr graph"
  by (simp add: build_graph_def)

lemma remapped_astar_none: "build_graph [(1, (0, 1)), (4, (0, 4)), (2, (1, 2)), (5, (1, 5)), (3, (2, 3)), (6, (2, 6))]
   [(1, 2, 7 / 10), (2, 1, 7 / 10), (2, 3, 7 / 10), (3, 2, 7 / 10),
       (1, 5, 7 / 10), (5, 1, 7 / 10), (2, 6, 7 / 10), (6, 2, 7 / 10)] = Inr graph \<Longrightarrow>
   astar graph [(1, (0, 1)), (4, (0, 4)), (2, (1, 2)), (5, (1, 5)), (3, (2, 3)), (6, (2, 6))] 4
     (route_destination [(1, (0, 1)), (4, (0, 4)), (2, (1, 2)), (5, (1, 5)), (3, (2, 3)), (6, (2, 6))] None) = Some (Inr None)"
  by (auto simp add: astar_eval)

lemma kitchen_graph_built: "\<exists>graph. build_graph [(1, (0, 1)), (2, (1, 2)), (3, (2, 3))]
   [(1, 2, 7 / 10), (2, 1, 7 / 10), (2, 3, 7 / 10), (3, 2, 7 / 10)] = Inr graph"
  by (simp add: build_graph_def)

lemma kitchen_astar_path: "build_graph [(1, (0, 1)), (2, (1, 2)), (3, (2, 3))]
   [(1, 2, 7 / 10), (2, 1, 7 / 10), (2, 3, 7 / 10), (3, 2, 7 / 10)] = Inr graph \<Longrightarrow>
   astar graph [(1, (0, 1)), (2, (1, 2)), (3, (2, 3))] 1
     (route_destination [(1, (0, 1)), (2, (1, 2)), (3, (2, 3))] None) = Some (Inr (Some [1, 2, 3]))"
  by (auto simp add: astar_eval)

section \<open>Properties of the localizer\<close>

lemma match_score_good_matches:
  "match_score ml f =
     (case descriptors f of None \<Rightarrow> 0 | Some d \<Rightarrow> length (good_matches (ml d)))"
  by (simp add: match_score_def good_matches_def split: option.split)

lemma localize_loop_no_better:
  "\<forall>f \<in> set fs. match_score ml f \<le> bc \<Longrightarrow> localize_loop ml fs (bm, bc, bs) = (bm, bc, bs)"
  by (induction fs) (auto simp: match_score_good_matches split: option.splits)

lemma localize_loop_first_best:
  assumes "\<forall>g \<in> set pre. match_score ml g < match_score ml f"
    and "\<forall>g \<in> set post. match_score ml g \<le> match_score ml f"
    and "bc < match_score ml f"
  shows "localize_loop ml (pre @ f # post) (bm, bc, bs) =
           (Some (frame_id f), match_score ml f, sequence_number f)"
  using assms
proof (induction pre arbitrary: bm bc bs)
  case Nil
  then obtain d where d: "descriptors f = Some d"
    by (cases "descriptors f") (auto simp: match_score_good_matches)
  with Nil show ?case
    using localize_loop_no_better [of post ml "match_score ml f"]
    by (simp add: match_score_good_matches)
next
  case (Cons g pre)
  show ?case
  proof (cases "descriptors g")
    case None
    with Cons show ?thesis by simp
  next
    case (Some d)
    with Cons show ?thesis by (auto simp: match_score_good_matches)
  qed
qed

lemma Max_insert_insert:
  fixes a b :: nat
  assumes "finite S"
  shows "Max (insert a (insert b S)) = Max (insert (max a b) S)"
proof (cases "S = {}")
  case True
  then show ?thesis by (simp add: max.commute)
next
  case False
  with assms show ?thesis by (simp add: max.assoc)
qed

lemma localize_loop_count:
  "fst (snd (localize_loop ml fs (bm, bc, bs))) = Max (insert bc (match_score ml ` set fs))"
proof (induction fs arbitrary: bm bc bs)
  case Nil
  then show ?case by simp
next
  case (Cons g fs)
  have fin: "finite (match_score ml ` set fs)" by simp
  have step: "Max (insert bc (match_score ml ` set (g # fs))) =
                Max (insert (max (match_score ml g) bc) (match_score ml ` set fs))"
    using Max_insert_insert [OF fin, of "match_score ml g" bc]
    by (simp add: insert_commute)
  show ?case
  proof (cases "descriptors g")
    case None
    then have "match_score ml g = 0" by (simp add: match_score_good_matches)
    with None Cons step show ?thesis by simp
  next
    case (Some d)
    then have s: "match_score ml g = length (good_matches (ml d))" by (simp add: match_score_good_matches)
    show ?thesis
    proof (cases "bc < match_score ml g")
      case True
      then have "max (match_score ml g) bc = match_score ml g" by simp
      with True Some s Cons step show ?thesis by simp
    next
      case False
      then have "max (match_score ml g) bc = bc" by simp
      with False Some s Cons step show ?thesis by simp
    qed
  qed
qed

lemma localize_loop_pattern:
  assumes "first_best ml pre f post"
  shows "localize_loop ml (pre @ f # post) (None, 0, 0) =
           (if 0 < match_score ml f then (Some (frame_id f), match_score ml f, sequence_number f)
            else (None, 0, 0))"
proof (cases "0 < match_score ml f")
  case True
  with assms show ?thesis
    using localize_loop_first_best [of pre ml f post 0 None 0] by (simp add: first_best_def)
next
  case False
  with assms have "\<forall>g \<in> set (pre @ f # post). match_score ml g \<le> 0"
    by (auto simp: first_best_def)
  with False show ?thesis
    using localize_loop_no_better [of "pre @ f # post" ml 0 None 0] by simp
qed

lemma localize_pattern:
  assumes "extract img = (kp, Some cd)" and "10 \<le> length kp"
    and "get_location_frames db name = pre @ f # post"
    and "first_best (matcher cd) pre f post"
  shows "localize extract matcher db img name =
           (if 30 \<le> match_score (matcher cd) f
            then (Some (frame_id f), match_score (matcher cd) f, Some (sequence_number f))
            else (None, match_score (matcher cd) f, None))"
  using assms localize_loop_pattern [of "matcher cd" pre f post]
  by (auto simp: localize_def confidence_threshold_def)

lemma localize_below_threshold:
  assumes "extract img = (kp, Some cd)" and "10 \<le> length kp"
    and "best_score (matcher cd) (get_location_frames db name) < 30"
  shows "localize extract matcher db img name =
           (None, best_score (matcher cd) (get_location_frames db name), None)"
proof (cases "get_location_frames db name = []")
  case True
  with assms show ?thesis by (simp add: localize_def best_score_def)
next
  case False
  obtain bm c bs where r: "localize_loop (matcher cd) (get_location_frames db name) (None, 0, 0) = (bm, c, bs)"
    by (metis prod_cases3)
  then have "c = best_score (matcher cd) (get_location_frames db name)"
    using localize_loop_count [of "matcher cd" "get_location_frames db name" None 0 0]
    by (simp add: best_score_def)
  with assms False r show ?thesis
    by (simp add: localize_def confidence_threshold_def)
qed

lemma localize_lowering:
  assumes e: "extract img = (kp, Some cd)" and k: "10 \<le> length kp"
    and fs: "get_location_frames db name = pre @ f # post"
    and fb: "first_best (matcher cd) pre f post"
    and rel: "list_all2 (\<lambda>g' g. frame_id g' = frame_id g \<and> sequence_number g' = sequence_number g \<and>
                 match_score (matcher' cd) g' \<le> match_score (matcher cd) g)
               (get_location_frames db' name) (get_location_frames db name)"
    and same: "match_score (matcher' cd) (get_location_frames db' name ! length pre) = match_score (matcher cd) f"
  shows "localize extract matcher' db' img name = localize extract matcher db img name"
proof -
  let ?P = "\<lambda>g' g. frame_id g' = frame_id g \<and> sequence_number g' = sequence_number g \<and>
                 match_score (matcher' cd) g' \<le> match_score (matcher cd) g"
  from rel fs obtain pre' rest where d: "get_location_frames db' name = pre' @ rest"
    "length pre' = length pre" "list_all2 ?P pre' pre" "list_all2 ?P rest (f # post)"
    by (auto simp: list_all2_append2)
  then obtain f' post' where r: "rest = f' # post'" "?P f' f" "list_all2 ?P post' post"
    by (auto simp: list_all2_Cons2)
  from d r have nth: "get_location_frames db' name ! length pre = f'" by (simp add: nth_append)
  with same have eq: "match_score (matcher' cd) f' = match_score (matcher cd) f" by simp
  have "first_best (matcher' cd) pre' f' post'"
    unfolding first_best_def
  proof (intro conjI ballI)
    fix g' assume "g' \<in> set pre'"
    then obtain i where i: "i < length pre'" "g' = pre' ! i" by (auto simp: in_set_conv_nth)
    with d(2,3) have "match_score (matcher' cd) g' \<le> match_score (matcher cd) (pre ! i)"
      by (auto simp: list_all2_conv_all_nth)
    moreover from i d(2) fb have "match_score (matcher cd) (pre ! i) < match_score (matcher cd) f"
      by (auto simp: first_best_def)
    ultimately show "match_score (matcher' cd) g' < match_score (matcher' cd) f'" using eq by simp
  next
    fix g' assume "g' \<in> set post'"
    then obtain i where i: "i < length post'" "g' = post' ! i" by (auto simp: in_set_conv_nth)
    with r(3) have "match_score (matcher' cd) g' \<le> match_score (matcher cd) (post ! i)"
       and "i < length post"
      by (auto simp: list_all2_conv_all_nth)
    moreover from this fb have "match_score (matcher cd) (post ! i) \<le> match_score (matcher cd) f"
      by (auto simp: first_best_def)
    ultimately show "match_score (matcher' cd) g' \<le> match_score (matcher' cd) f'" using eq by simp
  qed
  then have fb': "first_best (matcher' cd) pre' f' post'" .
  from d r have fs': "get_location_frames db' name = pre' @ f' # post'" by simp
  from localize_pattern [of "extract" "img" "kp" "cd" "db'" "name" "pre'" "f'" "post'" "matcher'", OF e k fs' fb']
  have "localize extract matcher' db' img name =
           (if 30 \<le> match_score (matcher' cd) f'
            then (Some (frame_id f'), match_score (matcher' cd) f', Some (sequence_number f'))
            else (None, match_score (matcher' cd) f', None))" .
  with localize_pattern [of "extract" "img" "kp" "cd" "db" "name" "pre" "f" "post" "matcher", OF e k fs fb] eq r(2) show ?thesis by simp
qed

text \<open>
  Claim C3. Whatever the store holds, \<open>localize\<close> returns the sentinel
  \<open>(None, 0, None)\<close> when the extractor finds no descriptor set in the live frame or
  fewer than 10 keypoints, and also when the store has no frame for the location.
\<close>

theorem localize_sentinel:
  "snd (extract img) = None \<or> length (fst (extract img)) < 10 \<or> get_location_frames db name = []
   \<Longrightarrow> localize extract matcher db img name = (None, 0, None)"
  by (cases "extract img") (auto simp: localize_def split: option.splits)

lemma example_frames:
  "get_location_frames (example_store n) ''kitchen'' =
     [example_frame 1 0 n 10, example_frame 2 1 35 0, example_frame 3 2 35 0]"
  by (simp add: get_location_frames_def location_ids_def example_store_def example_frame_def)

lemma example_score: "match_score (example_matcher cd) (example_frame i s n far) = n"
  by (simp add: match_score_def example_matcher_def example_frame_def)

lemma example_matches:
  "length (example_matcher cd (the (descriptors (example_frame i s n far)))) = n + far"
  by (simp add: example_matcher_def example_frame_def)

theorem localize_sentinel_witness:
  "localize example_extract example_matcher (example_store 31) ([], None) ''kitchen'' = (None, 0, None) \<and>
   localize example_extract example_matcher (example_store 31) ([example_keypoint], Some [[0]]) ''kitchen'' = (None, 0, None) \<and>
   localize example_extract example_matcher (example_store 31) example_image ''garage'' = (None, 0, None)"
proof -
  have a: "snd (example_extract ([], None)) = None" by (simp add: example_extract_def)
  have b: "length (fst (example_extract ([example_keypoint], Some [[0]]))) < 10"
    by (simp add: example_extract_def)
  have c: "get_location_frames (example_store 31) ''garage'' = []"
    by (simp add: get_location_frames_def location_ids_def example_store_def)
  show ?thesis
    using localize_sentinel [of example_extract "([], None)" "example_store 31" "''kitchen''" example_matcher]
      localize_sentinel [of example_extract "([example_keypoint], Some [[0]])" "example_store 31" "''kitchen''" example_matcher]
      localize_sentinel [of example_extract example_image "example_store 31" "''garage''" example_matcher]
      a b c by simp
qed

text \<open>
  Claim C1. Let the live frame pass the keypoint check. If \<open>f\<close> is the first frame, in
  the order of the store's answer, with the highest match score and that score is at
  least 30, \<open>localize\<close> returns the id of \<open>f\<close>, its score as confidence and its
  sequence index. If the best score is below 30, it returns no frame id, the best score as
  confidence and no sequence index. If the scores of the stored frames are lowered, or the
  frames otherwise changed, while ids and sequence indices stay and the score of the
  first best frame stays, the result is the same.
\<close>

theorem localize_returns_first_best:
  assumes "extract img = (kp, Some cd)" and "10 \<le> length kp"
  shows "(get_location_frames db name = pre @ f # post \<and> first_best (matcher cd) pre f post \<and>
            30 \<le> match_score (matcher cd) f \<longrightarrow>
          localize extract matcher db img name =
            (Some (frame_id f), match_score (matcher cd) f, Some (sequence_number f))) \<and>
         (best_score (matcher cd) (get_location_frames db name) < 30 \<longrightarrow>
          localize extract matcher db img name =
            (None, best_score (matcher cd) (get_location_frames db name), None)) \<and>
         (get_location_frames db name = pre @ f # post \<and> first_best (matcher cd) pre f post \<and>
            list_all2 (\<lambda>g' g. frame_id g' = frame_id g \<and> sequence_number g' = sequence_number g \<and>
                 match_score (matcher' cd) g' \<le> match_score (matcher cd) g)
               (get_location_frames db' name) (get_location_frames db name) \<and>
            match_score (matcher' cd) (get_location_frames db' name ! length pre) =
              match_score (matcher cd) f \<longrightarrow>
          localize extract matcher' db' img name = localize extract matcher db img name)"
proof (intro conjI impI)
  assume "get_location_frames db name = pre @ f # post \<and> first_best (matcher cd) pre f post \<and>
            30 \<le> match_score (matcher cd) f"
  then show "localize extract matcher db img name =
            (Some (frame_id f), match_score (matcher cd) f, Some (sequence_number f))"
    using localize_pattern [of "extract" "img" "kp" "cd" "db" "name" "pre" "f" "post" "matcher"] assms
    by simp
next
  assume "best_score (matcher cd) (get_location_frames db name) < 30"
  then show "localize extract matcher db img name =
            (None, best_score (matcher cd) (get_location_frames db name), None)"
    using localize_below_threshold [of "extract" "img" "kp" "cd" "matcher" "db" "name"] assms by simp
next
  assume "get_location_frames db name = pre @ f # post \<and> first_best (matcher cd) pre f post \<and>
            list_all2 (\<lambda>g' g. frame_id g' = frame_id g \<and> sequence_number g' = sequence_number g \<and>
                 match_score (matcher' cd) g' \<le> match_score (matcher cd) g)
               (get_location_frames db' name) (get_location_frames db name) \<and>
            match_score (matcher' cd) (get_location_frames db' name ! length pre) =
              match_score (matcher cd) f"
  then show "localize extract matcher' db' img name = localize extract matcher db img name"
    using localize_lowering [of "extract" "img" "kp" "cd" "db" "name" "pre" "f" "post" "matcher" "matcher'" "db'"] assms
    by blast
qed

theorem localize_returns_first_best_witness:
  "localize example_extract example_matcher (example_store 31) example_image ''kitchen'' =
     (Some 2, 35, Some 1) \<and>
   localize example_extract example_matcher (example_store 31) example_image ''garage'' =
     (None, 0, None) \<and>
   localize example_extract example_matcher (example_store 4) example_image ''kitchen'' =
     localize example_extract example_matcher (example_store 31) example_image ''kitchen''"
proof -
  let ?cd = "replicate 12 [0::nat]"
  let ?kp = "replicate 12 example_keypoint"
  let ?pre = "[example_frame 1 0 31 10]" and ?f = "example_frame 2 1 35 0"
    and ?post = "[example_frame 3 2 35 0]"
  have e: "example_extract example_image = (?kp, Some ?cd)"
    by (simp add: example_extract_def example_image_def)
  have k: "10 \<le> length ?kp" by simp
  have fs: "get_location_frames (example_store 31) ''kitchen'' = ?pre @ ?f # ?post"
    by (simp add: example_frames)
  have fb: "first_best (example_matcher ?cd) ?pre ?f ?post"
    by (simp add: first_best_def example_score)
  have s: "30 \<le> match_score (example_matcher ?cd) ?f" by (simp add: example_score)
  have g: "get_location_frames (example_store 31) ''garage'' = []"
    by (simp add: get_location_frames_def location_ids_def example_store_def)
  have b: "best_score (example_matcher ?cd) (get_location_frames (example_store 31) ''garage'') < 30"
    by (simp add: g best_score_def)
  have l: "list_all2 (\<lambda>g' g. frame_id g' = frame_id g \<and> sequence_number g' = sequence_number g \<and>
                 match_score (example_matcher ?cd) g' \<le> match_score (example_matcher ?cd) g)
               (get_location_frames (example_store 4) ''kitchen'')
               (get_location_frames (example_store 31) ''kitchen'')"
    by (simp add: example_frames example_score) (simp add: example_frame_def)
  have m: "match_score (example_matcher ?cd) (get_location_frames (example_store 4) ''kitchen'' ! length ?pre) =
              match_score (example_matcher ?cd) ?f"
    by (simp add: example_frames)
  have 1: "localize example_extract example_matcher (example_store 31) example_image ''kitchen'' =
     (Some (frame_id ?f), match_score (example_matcher ?cd) ?f, Some (sequence_number ?f))"
    using localize_returns_first_best [of example_extract example_image ?kp ?cd "example_store 31" "''kitchen''" ?pre ?f ?post example_matcher example_matcher "example_store 31"] e k fs fb s by blast
  have 2: "localize example_extract example_matcher (example_store 31) example_image ''garage'' =
     (None, best_score (example_matcher ?cd) (get_location_frames (example_store 31) ''garage''), None)"
    using localize_returns_first_best [of example_extract example_image ?kp ?cd "example_store 31" "''garage''" ?pre ?f ?post example_matcher example_matcher "example_store 31"] e k b by blast
  have 3: "localize example_extract example_matcher (example_store 4) example_image ''kitchen'' =
     localize example_extract example_matcher (example_store 31) example_image ''kitchen''"
    using localize_returns_first_best [of example_extract example_image ?kp ?cd "example_store 31" "''kitchen''" ?pre ?f ?post example_matcher example_matcher "example_store 4"] e k fs fb l m by blast
  from 1 2 3 show ?thesis
    by (simp add: example_score g best_score_def) (simp add: example_frame_def)
qed

section \<open>Properties of the navigator\<close>

lemma format_07: "format_1f (7 / 10) = ''0.7''"
  by (simp add: format_1f_def round_half_even_def str_int_def digit_char_def)

text \<open>
  Claim C6. For a planned path of length \<open>L \<ge> 1\<close>: at step index \<open>L - 1\<close> the
  instruction is \<^verbatim>\<open>Destination reached\<close>; at every smaller step index (from 0) it is
  \<^verbatim>\<open>Continue forward 0.7 meters\<close>, whatever the path and the nodes are.
\<close>

theorem next_instruction:
  assumes "1 \<le> length (current_path nav)"
  shows "(current_step nav = int (length (current_path nav)) - 1 \<longrightarrow>
            get_next_instruction nav nodes = Inr ''Destination reached'') \<and>
         (0 \<le> current_step nav \<and> current_step nav < int (length (current_path nav)) - 1 \<longrightarrow>
            get_next_instruction nav nodes = Inr ''Continue forward 0.7 meters'')"
  using assms
  by (auto simp: get_next_instruction_def py_index_def format_07 Let_def)

theorem next_instruction_witness:
  "get_next_instruction \<lparr>current_path = [1, 2, 3], current_step = 2\<rparr> [] = Inr ''Destination reached'' \<and>
   get_next_instruction \<lparr>current_path = [1, 2, 3], current_step = 1\<rparr> [] = Inr ''Continue forward 0.7 meters''"
  using next_instruction [of "\<lparr>current_path = [1, 2, 3], current_step = 2\<rparr>" "[]"]
    next_instruction [of "\<lparr>current_path = [1, 2, 3], current_step = 1\<rparr>" "[]"]
  by simp

lemma reconstruct_loop_length:
  assumes "reconstruct_loop cf current path = Some r"
  shows "length path \<le> length r"
  using assms
proof (induction cf current path r rule: reconstruct_loop.raw_induct [rotated 1, consumes 1])
  case (1 loop cf current path r)
  then show ?case
    by (cases "cf current") (auto dest!: "1.IH")
qed

lemma reconstruct_path_nonempty: "reconstruct_path cf current = Some r \<Longrightarrow> r \<noteq> []"
  using reconstruct_loop_length [of cf current "[current]"]
  by (auto simp: reconstruct_path_def)

lemma astar_loop_nonempty:
  assumes "astar_loop graph nodes goal st = Some res"
  shows "\<forall>path. res = Inr (Some path) \<longrightarrow> path \<noteq> []"
  using assms
proof (induction graph nodes goal st res rule: astar_loop.raw_induct [rotated 1, consumes 1])
  case (1 loop graph nodes goal st res)
  then show ?case
    by (auto simp: Let_def split: if_splits option.splits sum.splits
          dest: reconstruct_path_nonempty)
qed

lemma astar_nonempty: "astar graph nodes start goal = Some (Inr (Some path)) \<Longrightarrow> path \<noteq> []"
  using astar_loop_nonempty by (auto simp: astar_def split: sum.splits)

text \<open>
  Claim C10. \<open>plan_route\<close> changes the navigator all at once or not at all: when the
  location's graph has no nodes, or A* returns no path, it returns \<^verbatim>\<open>None\<close> and the
  navigator is as before; when A* returns a path, it returns the path and the navigator
  holds the path with step index 0. Whenever it returns \<^verbatim>\<open>None\<close> the navigator is
  unchanged, and whenever it returns a path that path is stored with step index 0.
\<close>

theorem plan_route_atomic:
  assumes "get_navigation_graph db name = (nodes, edges)"
  shows "(nodes = [] \<longrightarrow> plan_route db nav name cur dest = Some (Inr None, nav)) \<and>
         (nodes \<noteq> [] \<and> build_graph nodes edges = Inr graph \<and>
            astar graph nodes cur (route_destination nodes dest) = Some (Inr None) \<longrightarrow>
          plan_route db nav name cur dest = Some (Inr None, nav)) \<and>
         (nodes \<noteq> [] \<and> build_graph nodes edges = Inr graph \<and>
            astar graph nodes cur (route_destination nodes dest) = Some (Inr (Some path)) \<longrightarrow>
          plan_route db nav name cur dest =
            Some (Inr (Some path), nav\<lparr>current_path := path, current_step := 0\<rparr>)) \<and>
         (plan_route db nav name cur dest = Some (Inr None, nav') \<longrightarrow> nav' = nav) \<and>
         (plan_route db nav name cur dest = Some (Inr (Some path'), nav') \<longrightarrow>
            nav' = nav\<lparr>current_path := path', current_step := 0\<rparr>)"
  using assms
  by (auto simp: plan_route_def route_destination_def Let_def dest: astar_nonempty
      split: sum.splits option.splits if_splits)

theorem plan_route_atomic_witness:
  "plan_route init_database \<lparr>current_path = [9], current_step = 5\<rparr> ''kitchen'' 1 None =
     Some (Inr None, \<lparr>current_path = [9], current_step = 5\<rparr>) \<and>
   plan_route (db_store kitchen_remapped) \<lparr>current_path = [9], current_step = 5\<rparr> ''kitchen'' 4 None =
     Some (Inr None, \<lparr>current_path = [9], current_step = 5\<rparr>) \<and>
   plan_route (db_store kitchen_mapped) \<lparr>current_path = [9], current_step = 5\<rparr> ''kitchen'' 1 None =
     Some (Inr (Some [1, 2, 3]), \<lparr>current_path = [1, 2, 3], current_step = 0\<rparr>)"
proof -
  let ?nav = "\<lparr>current_path = [9], current_step = 5\<rparr>"
  let ?nodes = "[(1, (0, 1)), (4, (0, 4)), (2, (1, 2)), (5, (1, 5)), (3, (2, 3)), (6, (2, 6))]"
  let ?knodes = "[(1, (0, 1)), (2, (1, 2)), (3, (2, 3))]"
  have e: "get_navigation_graph init_database ''kitchen'' = ([], [])"
    by (simp add: get_navigation_graph_def init_database_def location_ids_def Let_def)
  from remapped_graph_built obtain graph where g: "build_graph ?nodes
      [(1, 2, 7 / 10), (2, 1, 7 / 10), (2, 3, 7 / 10), (3, 2, 7 / 10),
       (1, 5, 7 / 10), (5, 1, 7 / 10), (2, 6, 7 / 10), (6, 2, 7 / 10)] = Inr graph"
    by blast
  note a = remapped_astar_none [OF g]
  from kitchen_graph_built obtain kgraph where kg: "build_graph ?knodes
      [(1, 2, 7 / 10), (2, 1, 7 / 10), (2, 3, 7 / 10), (3, 2, 7 / 10)] = Inr kgraph"
    by blast
  note ka = kitchen_astar_path [OF kg]
  have ne: "?nodes \<noteq> []" "?knodes \<noteq> []" by simp_all
  have 1: "plan_route init_database ?nav ''kitchen'' 1 None = Some (Inr None, ?nav)"
    using plan_route_atomic [OF e, where nav = "?nav" and cur = "1" and dest = "None"] by blast
  have 2: "plan_route (db_store kitchen_remapped) ?nav ''kitchen'' 4 None = Some (Inr None, ?nav)"
    using plan_route_atomic [OF kitchen_remapped_graph, where nav = "?nav" and cur = "4" and dest = "None"
        and graph = "graph"] g a ne by blast
  have 3: "plan_route (db_store kitchen_mapped) ?nav ''kitchen'' 1 None =
             Some (Inr (Some [1, 2, 3]), ?nav\<lparr>current_path := [1, 2, 3], current_step := 0\<rparr>)"
    using plan_route_atomic [OF kitchen_graph, where nav = "?nav" and cur = "1" and dest = "None"
        and graph = "kgraph" and path = "[1, 2, 3]"] kg ka ne by blast
  from 1 2 3 show ?thesis by simp
qed

section \<open>Properties of the request handlers\<close>

lemma mapping_tick_keeps:
  "mode (app_state (mapping_tick extract lid cam sys)) = mode (app_state sys)"
  "threads (mapping_tick extract lid cam sys) = threads sys"
  by (auto simp: mapping_tick_def Let_def split: option.splits prod.splits)

lemma mapping_loop_reachable:
  assumes "reachable sys" and "mode (app_state sys) = Mapping"
    and "MappingLoop lid \<in> set (threads sys)"
  shows "reachable (mapping_loop (\<lambda>features. features) lid cams sys)"
  using assms
proof (induction cams arbitrary: sys)
  case Nil
  then show ?case by simp
next
  case (Cons cam cams)
  have "reachable (mapping_tick (\<lambda>features. features) lid cam sys)"
    using Cons.prems by (rule reachable_mapping_tick)
  then show ?case
    using Cons.prems Cons.IH [of "mapping_tick (\<lambda>features. features) lid cam sys"]
    by (simp add: mapping_tick_keeps)
qed

lemma example_extract_id: "example_extract = (\<lambda>features. features)"
  by (rule ext) (simp add: example_extract_def)

lemma kitchen_mapped_reachable: "reachable kitchen_mapped"
proof -
  have "reachable kitchen_mapping"
    unfolding kitchen_mapping_def by (intro reachable_start_mapping reachable_init)
  then show ?thesis
    unfolding kitchen_mapped_def example_extract_id
    by (rule mapping_loop_reachable) (simp_all add: kitchen_mapping_state app_state_init_def)
qed

lemma kitchen_navigating_reachable: "reachable kitchen_navigating"
  unfolding kitchen_navigating_def kitchen_idle_def
  by (intro reachable_start_navigation reachable_stop_mapping kitchen_mapped_reachable)

lemma kitchen_known: "known_destination [''destination'' \<mapsto> ''kitchen''] kitchen_idle"
  by (simp add: known_destination_def kitchen_idle_state kitchen_mapped_store get_all_locations_def)

lemma garage_unknown: "\<not> known_destination [''destination'' \<mapsto> ''garage''] kitchen_idle"
  by (simp add: known_destination_def kitchen_idle_state kitchen_mapped_store get_all_locations_def)

text \<open>
  Claim C4, as the code has it. The handlers make no check of the current mode:
  \<open>start_mapping\<close> sets the mode to mapping from every mode, \<open>start_navigation\<close> sets it
  to navigating from every mode when the destination is in the store's location list and
  leaves it unchanged otherwise. The mode is one field with one value, so mapping and
  navigating exclude each other.
\<close>

theorem start_sets_mode_from_any_mode:
  "mode (app_state (snd (start_mapping now data sys))) = Mapping \<and>
   (known_destination data' sys \<longrightarrow>
      mode (app_state (snd (start_navigation data' sys))) = Navigating) \<and>
   (\<not> known_destination data' sys \<longrightarrow>
      mode (app_state (snd (start_navigation data' sys))) = mode (app_state sys))"
  by (auto simp: start_mapping_def start_navigation_def known_destination_def speak_def
        start_thread_def Let_def split: prod.splits option.splits)

theorem start_sets_mode_from_any_mode_witness:
  "mode (app_state (snd (start_navigation [''destination'' \<mapsto> ''kitchen''] kitchen_idle))) = Navigating \<and>
   mode (app_state (snd (start_navigation [''destination'' \<mapsto> ''garage''] kitchen_idle))) = Idle"
  using start_sets_mode_from_any_mode [of 0 Map.empty kitchen_idle "[''destination'' \<mapsto> ''kitchen'']"]
    start_sets_mode_from_any_mode [of 0 Map.empty kitchen_idle "[''destination'' \<mapsto> ''garage'']"]
    kitchen_known garage_unknown
  by (simp add: kitchen_idle_state app_state_init_def)

text \<open>
  The claim as stated fails: the navigating state of the scenario is reachable, and
  \<open>start_mapping\<close> takes it to mapping; the mapping state is reachable, and
  \<open>start_navigation\<close> takes it to navigating.
\<close>

theorem start_from_non_idle_counterexample:
  "reachable kitchen_navigating \<and>
   mode (app_state kitchen_navigating) = Navigating \<and>
   mode (app_state (snd (start_mapping 5 kitchen_request kitchen_navigating))) = Mapping \<and>
   reachable kitchen_mapped \<and>
   mode (app_state kitchen_mapped) = Mapping \<and>
   mode (app_state (snd (start_navigation [''destination'' \<mapsto> ''kitchen''] kitchen_mapped))) = Navigating"
proof -
  have m: "mode (app_state (snd (start_mapping 5 kitchen_request kitchen_navigating))) = Mapping"
    by (simp add: start_mapping_def speak_def start_thread_def Let_def split: prod.splits)
  have n: "mode (app_state (snd (start_navigation [''destination'' \<mapsto> ''kitchen''] kitchen_mapped))) = Navigating"
    by (simp add: start_navigation_def kitchen_mapped_store get_all_locations_def speak_def
        start_thread_def Let_def)
  from m n kitchen_mapped_reachable kitchen_navigating_reachable show ?thesis
    by (simp add: kitchen_navigating_state kitchen_mapped_state app_state_init_def)
qed

text \<open>
  Claim C8. When the destination of the request is not in the store's location list,
  \<open>start_navigation\<close> answers with the error "Location not found" and changes
  neither the session state (mode, destination, position) nor the navigator (path, step
  index), the store or the threads; in particular an idle session stays idle.
\<close>

theorem start_navigation_not_found:
  assumes "\<not> known_destination data sys"
  shows "fst (start_navigation data sys) =
           [(''status'', Str ''error''), (''message'', Str ''Location not found'')] \<and>
         app_state (snd (start_navigation data sys)) = app_state sys \<and>
         navigator (snd (start_navigation data sys)) = navigator sys \<and>
         db_store (snd (start_navigation data sys)) = db_store sys \<and>
         threads (snd (start_navigation data sys)) = threads sys \<and>
         (mode (app_state sys) = Idle \<longrightarrow> mode (app_state (snd (start_navigation data sys))) = Idle)"
  using assms
  by (auto simp: start_navigation_def known_destination_def speak_def Let_def split: option.splits)

theorem start_navigation_not_found_witness:
  "fst (start_navigation [''destination'' \<mapsto> ''garage''] kitchen_idle) =
     [(''status'', Str ''error''), (''message'', Str ''Location not found'')] \<and>
   app_state (snd (start_navigation [''destination'' \<mapsto> ''garage''] kitchen_idle)) = app_state kitchen_idle \<and>
   navigator (snd (start_navigation [''destination'' \<mapsto> ''garage''] kitchen_idle)) = navigator kitchen_idle \<and>
   mode (app_state (snd (start_navigation [''destination'' \<mapsto> ''garage''] kitchen_idle))) = Idle"
  using start_navigation_not_found [OF garage_unknown]
  by (simp add: kitchen_idle_state app_state_init_def)

text \<open>
  Claim C5, as the code has it. In navigating mode \<open>stop_navigation\<close> sets the mode to
  idle, the destination to none and the planned path to the empty list, and answers with
  success; the step index is not assigned and keeps its value. In every other mode it
  answers with an error and changes nothing.
\<close>

theorem stop_navigation_effect:
  "(mode (app_state sys) = Navigating \<longrightarrow>
      fst (stop_navigation sys) =
        [(''status'', Str ''success''), (''message'', Str ''Navigation stopped'')] \<and>
      mode (app_state (snd (stop_navigation sys))) = Idle \<and>
      destination (app_state (snd (stop_navigation sys))) = None \<and>
      current_path (navigator (snd (stop_navigation sys))) = [] \<and>
      current_step (navigator (snd (stop_navigation sys))) = current_step (navigator sys) \<and>
      snd (stop_navigation sys) =
        sys\<lparr>app_state := (app_state sys)\<lparr>mode := Idle, destination := None\<rparr>,
            navigator := (navigator sys)\<lparr>current_path := []\<rparr>,
            spoken := spoken sys @ [''Navigation stopped'']\<rparr>) \<and>
   (mode (app_state sys) \<noteq> Navigating \<longrightarrow>
      fst (stop_navigation sys) =
        [(''status'', Str ''error''), (''message'', Str ''Not in navigation mode'')] \<and>
      snd (stop_navigation sys) = sys)"
  by (simp add: stop_navigation_def speak_def Let_def)

theorem stop_navigation_effect_witness:
  "mode (app_state (snd (stop_navigation kitchen_trip))) = Idle \<and>
   current_path (navigator (snd (stop_navigation kitchen_trip))) = [] \<and>
   destination (app_state (snd (stop_navigation kitchen_trip))) = None \<and>
   snd (stop_navigation kitchen_idle) = kitchen_idle"
  using stop_navigation_effect [of kitchen_trip] stop_navigation_effect [of kitchen_idle]
  by (simp add: kitchen_trip_state kitchen_navigating_state kitchen_idle_state app_state_init_def)

text \<open>
  The claim as stated fails on the step index: the trip of the scenario is in navigating
  mode at step 1, and after the stop request the step index is still 1.
\<close>

theorem stop_navigation_step_counterexample:
  "mode (app_state kitchen_trip) = Navigating \<and>
   current_step (navigator kitchen_trip) = 1 \<and>
   current_step (navigator (snd (stop_navigation kitchen_trip))) \<noteq> 0"
  by (simp add: stop_navigation_def speak_def Let_def kitchen_trip_state
      kitchen_navigating_state app_state_init_def)

section \<open>Confidence normalization\<close>









section \<open>Properties of the mapping loop\<close>

lemma find_append_miss:
  "\<not> P y \<Longrightarrow> find P (xs @ [y]) = find P xs"
  by (induction xs) auto

lemma find_Some_ex:
  "\<exists>x \<in> set xs. P x \<Longrightarrow> \<exists>y \<in> set xs. P y \<and> find P xs = Some y"
  by (induction xs) auto

lemma save_frame_tables:
  "frames (snd (save_frame db lid sq path kps descs)) =
     frames db @ [\<lparr>frame_id = lastrowid (map frame_id (frames db)), frame_location_id = lid,
                   sequence_number = sq, image_path = path, keypoints = kps, descriptors = descs\<rparr>]"
  "graph_nodes (snd (save_frame db lid sq path kps descs)) =
     graph_nodes db @ [\<lparr>node_id = lastrowid (map node_id (graph_nodes db)), node_location_id = lid,
                        node_frame_id = lastrowid (map frame_id (frames db)), position_index = sq\<rparr>]"
  "locations (snd (save_frame db lid sq path kps descs)) = locations db"
  by (simp_all add: save_frame_def Let_def split: option.splits)

lemma save_frame_edges:
  "graph_edges (snd (save_frame db lid sq path kps descs)) =
     (if sq > 0 then
        (case find (\<lambda>n. node_location_id n = lid \<and> position_index n = sq - 1) (graph_nodes db) of
           Some pv \<Rightarrow> graph_edges db @
             [\<lparr>from_node = node_id pv, to_node = lastrowid (map node_id (graph_nodes db)), distance = 7 / 10\<rparr>,
              \<lparr>from_node = lastrowid (map node_id (graph_nodes db)), to_node = node_id pv, distance = 7 / 10\<rparr>]
         | None \<Rightarrow> graph_edges db)
      else graph_edges db)"
  by (simp add: save_frame_def Let_def find_append_miss split: option.splits)

lemma mapping_tick_rejected:
  "\<not> accepted extract cam \<Longrightarrow> mapping_tick extract lid cam sys = sys"
  by (auto simp: accepted_def mapping_tick_def split: option.splits prod.splits)

lemma mapping_tick_accepted:
  assumes "accepted extract (Some frame)"
  shows "mapping_tick extract lid (Some frame) sys =
           sys\<lparr>db_store := snd (save_frame (db_store sys) lid (mapping_frames (app_state sys))
                    (''data/saved_frames/'' @ str_int lid @ ''_'' @
                       str_int (mapping_frames (app_state sys)) @ ''.jpg'')
                    (fst (extract frame)) (snd (extract frame))),
               app_state := (app_state sys)\<lparr>mapping_frames := mapping_frames (app_state sys) + 1\<rparr>\<rparr>"
  using assms
  by (auto simp: accepted_def mapping_tick_def Let_def split: option.splits prod.splits)

lemma find_filter_hd:
  "find P xs = (if filter P xs = [] then None else Some (hd (filter P xs)))"
  by (induction xs) auto

lemma find_previous_nodes:
  "find (\<lambda>n. node_location_id n = lid \<and> position_index n = sq - 1) (graph_nodes db) =
     (if previous_nodes db lid sq = [] then None else Some (hd (previous_nodes db lid sq)))"
  unfolding previous_nodes_def by (rule find_filter_hd)

lemma mapping_tick_effect:
  assumes "accepted extract (Some frame)"
  shows "(let sys' = mapping_tick extract lid (Some frame) sys;
              db = db_store sys;
              sq = mapping_frames (app_state sys);
              fid = lastrowid (map frame_id (frames db));
              nid = lastrowid (map node_id (graph_nodes db));
              prev = previous_nodes db lid sq
          in mapping_frames (app_state sys') = sq + 1 \<and>
             mode (app_state sys') = mode (app_state sys) \<and>
             frames (db_store sys') = frames db @
               [\<lparr>frame_id = fid, frame_location_id = lid, sequence_number = sq,
                 image_path = ''data/saved_frames/'' @ str_int lid @ ''_'' @ str_int sq @ ''.jpg'',
                 keypoints = fst (extract frame), descriptors = snd (extract frame)\<rparr>] \<and>
             graph_nodes (db_store sys') = graph_nodes db @
               [\<lparr>node_id = nid, node_location_id = lid, node_frame_id = fid, position_index = sq\<rparr>] \<and>
             locations (db_store sys') = locations db \<and>
             (sq \<le> 0 \<or> prev = [] \<longrightarrow> graph_edges (db_store sys') = graph_edges db) \<and>
             (0 < sq \<and> prev \<noteq> [] \<longrightarrow>
                graph_edges (db_store sys') = graph_edges db @
                  [\<lparr>from_node = node_id (hd prev), to_node = nid, distance = 7 / 10\<rparr>,
                   \<lparr>from_node = nid, to_node = node_id (hd prev), distance = 7 / 10\<rparr>]))"
  unfolding Let_def mapping_tick_accepted [OF assms]
  by (simp add: save_frame_tables save_frame_edges find_previous_nodes)

lemma positions_mapped_previous:
  assumes "positions_mapped sys lid" and "0 < mapping_frames (app_state sys)"
  shows "previous_nodes (db_store sys) lid (mapping_frames (app_state sys)) \<noteq> []"
proof -
  from assms(2) have "mapping_frames (app_state sys) - 1 \<in> set [0 .. mapping_frames (app_state sys) - 1]"
    by simp
  with assms(1) have "\<exists>n \<in> set (graph_nodes (db_store sys)).
      node_location_id n = lid \<and> position_index n = mapping_frames (app_state sys) - 1"
    unfolding positions_mapped_def by blast
  then show ?thesis
    unfolding previous_nodes_def by (simp add: filter_empty_conv)
qed

lemma mapping_tick_positions:
  assumes "accepted extract (Some frame)" and "positions_mapped sys lid"
  shows "positions_mapped (mapping_tick extract lid (Some frame) sys) lid"
proof -
  from mapping_tick_effect [OF assms(1), of lid sys]
  have mf: "mapping_frames (app_state (mapping_tick extract lid (Some frame) sys)) =
              mapping_frames (app_state sys) + 1"
    and nd: "graph_nodes (db_store (mapping_tick extract lid (Some frame) sys)) =
               graph_nodes (db_store sys) @
               [\<lparr>node_id = lastrowid (map node_id (graph_nodes (db_store sys))),
                 node_location_id = lid,
                 node_frame_id = lastrowid (map frame_id (frames (db_store sys))),
                 position_index = mapping_frames (app_state sys)\<rparr>]"
    by (simp_all add: Let_def)
  show ?thesis
    unfolding positions_mapped_def mf nd
  proof
    fix j assume "j \<in> set [0 .. mapping_frames (app_state sys) + 1 - 1]"
    then have "j \<in> set [0 .. mapping_frames (app_state sys) - 1] \<or> j = mapping_frames (app_state sys)"
      by auto
    with assms(2) show "\<exists>n \<in> set (graph_nodes (db_store sys) @
               [\<lparr>node_id = lastrowid (map node_id (graph_nodes (db_store sys))),
                 node_location_id = lid,
                 node_frame_id = lastrowid (map frame_id (frames (db_store sys))),
                 position_index = mapping_frames (app_state sys)\<rparr>]).
            node_location_id n = lid \<and> position_index n = j"
      unfolding positions_mapped_def by auto
  qed
qed

lemma mapping_loop_counts:
  assumes "mode (app_state sys) = Mapping" and "positions_mapped sys lid"
    and "0 \<le> mapping_frames (app_state sys)"
  shows "(let sys' = mapping_loop extract lid cams sys;
              k = length (filter (accepted extract) cams);
              m = nat (mapping_frames (app_state sys))
          in mapping_frames (app_state sys') = mapping_frames (app_state sys) + int k \<and>
             length (frames (db_store sys')) = length (frames (db_store sys)) + k \<and>
             length (graph_nodes (db_store sys')) = length (graph_nodes (db_store sys)) + k \<and>
             (\<exists>new. graph_edges (db_store sys') = graph_edges (db_store sys) @ new \<and>
                    (\<forall>e \<in> set new. distance e = 7 / 10) \<and>
                    length new = 2 * (m + k - 1) - 2 * (m - 1)))"
  using assms
proof (induction cams arbitrary: sys)
  case Nil
  then show ?case by simp
next
  case (Cons cam cams)
  let ?sys1 = "mapping_tick extract lid cam sys"
  show ?case
  proof (cases "accepted extract cam")
    case False
    then have "?sys1 = sys" by (rule mapping_tick_rejected)
    with False Cons show ?thesis by (simp add: Let_def)
  next
    case True
    then obtain frame where cam: "cam = Some frame"
      by (cases cam) (simp_all add: accepted_def)
    from True cam have acc: "accepted extract (Some frame)" by simp
    note eff = mapping_tick_effect [OF acc, of lid sys, folded cam, unfolded Let_def]
    from eff Cons.prems have m1: "mode (app_state ?sys1) = Mapping"
      and f1: "0 \<le> mapping_frames (app_state ?sys1)" by simp_all
    have p1: "positions_mapped ?sys1 lid"
      using mapping_tick_positions [OF acc Cons.prems(2)] cam by simp
    note ih = Cons.IH [OF m1 p1 f1, unfolded Let_def]
    let ?k' = "length (filter (accepted extract) cams)"
    let ?m = "nat (mapping_frames (app_state sys))"
    from ih obtain new where new:
      "graph_edges (db_store (mapping_loop extract lid cams ?sys1)) = graph_edges (db_store ?sys1) @ new"
      "\<forall>e \<in> set new. distance e = 7 / 10"
      "length new = 2 * (nat (mapping_frames (app_state ?sys1)) + ?k' - 1) -
                    2 * (nat (mapping_frames (app_state ?sys1)) - 1)"
      by blast
    have "\<exists>new1. graph_edges (db_store ?sys1) = graph_edges (db_store sys) @ new1 \<and>
              (\<forall>e \<in> set new1. distance e = 7 / 10) \<and>
              length new1 = (if 0 < mapping_frames (app_state sys) then 2 else 0)"
    proof (cases "0 < mapping_frames (app_state sys)")
      case True
      with eff positions_mapped_previous [OF Cons.prems(2)] show ?thesis by auto
    next
      case False
      with eff show ?thesis by auto
    qed
    then obtain new1 where new1:
      "graph_edges (db_store ?sys1) = graph_edges (db_store sys) @ new1"
      "\<forall>e \<in> set new1. distance e = 7 / 10"
      "length new1 = (if 0 < mapping_frames (app_state sys) then 2 else 0)"
      by blast
    have mf1: "nat (mapping_frames (app_state ?sys1)) = ?m + 1"
      using eff Cons.prems(3) by simp
    have len: "length (new1 @ new) = 2 * (?m + Suc ?k' - 1) - 2 * (?m - 1)"
      using new(3) new1(3) mf1 Cons.prems(3) by (auto simp: nat_0_iff)
    have "\<exists>new2. graph_edges (db_store (mapping_loop extract lid cams ?sys1)) =
                  graph_edges (db_store sys) @ new2 \<and>
                (\<forall>e \<in> set new2. distance e = 7 / 10) \<and>
                length new2 = 2 * (?m + Suc ?k' - 1) - 2 * (?m - 1)"
      using new(1,2) new1(1,2) len by (intro exI [of _ "new1 @ new"]) auto
    moreover from eff have "length (frames (db_store ?sys1)) = length (frames (db_store sys)) + 1"
      by auto
    moreover from eff have "length (graph_nodes (db_store ?sys1)) = length (graph_nodes (db_store sys)) + 1"
      by auto
    ultimately show ?thesis
      using True Cons.prems(1) ih eff by (simp add: Let_def)
  qed
qed

lemma kitchen_first_state:
  "app_state kitchen_first =
     app_state_init\<lparr>mode := Mapping, current_location := Some ''kitchen'', mapping_frames := 1\<rparr>"
  "graph_nodes (db_store kitchen_first) =
     [\<lparr>node_id = 1, node_location_id = 1, node_frame_id = 1, position_index = 0\<rparr>]"
  "graph_edges (db_store kitchen_first) = []"
  "map frame_id (frames (db_store kitchen_first)) = [1]"
  by (simp_all add: kitchen_first_def example_capture_def mapping_tick_def
      example_extract_def kitchen_mapping_state save_frame_def lastrowid_def Let_def
      app_state_init_def init_database_def str_int_small)

lemma two_loops_state:
  "app_state two_loops = app_state_init\<lparr>mode := Mapping, current_location := Some ''hall''\<rparr>"
  "db_store two_loops =
     init_database\<lparr>locations := [\<lparr>loc_id = 1, loc_name = ''kitchen'', created_at = 0\<rparr>,
                                  \<lparr>loc_id = 2, loc_name = ''hall'', created_at = 1\<rparr>]\<rparr>"
  "threads two_loops = [MappingLoop 1, MappingLoop 2]"
  by (simp_all add: two_loops_def start_mapping_def hall_request_def kitchen_mapping_state
      app_state_init_def save_location_def init_database_def lastrowid_def speak_def
      start_thread_def Let_def)

lemma two_loops_first_state:
  "app_state two_loops_first =
     app_state_init\<lparr>mode := Mapping, current_location := Some ''hall'', mapping_frames := 1\<rparr>"
  "graph_nodes (db_store two_loops_first) =
     [\<lparr>node_id = 1, node_location_id = 1, node_frame_id = 1, position_index = 0\<rparr>]"
  "graph_edges (db_store two_loops_first) = []"
  "map sequence_number (frames (db_store two_loops_first)) = [0]"
  "map frame_id (frames (db_store two_loops_first)) = [1]"
  "threads two_loops_first = [MappingLoop 1, MappingLoop 2]"
  by (simp_all add: two_loops_first_def example_capture_def mapping_tick_def
      example_extract_def two_loops_state save_frame_def lastrowid_def Let_def
      app_state_init_def init_database_def str_int_small)

lemma two_loops_reachable: "reachable two_loops_first" "reachable two_loops_second"
proof -
  have "reachable two_loops"
    unfolding two_loops_def kitchen_mapping_def
    by (intro reachable_start_mapping reachable_init)
  then show 1: "reachable two_loops_first"
    unfolding two_loops_first_def example_extract_id
    by (rule reachable_mapping_tick) (simp_all add: two_loops_state app_state_init_def)
  then show "reachable two_loops_second"
    unfolding two_loops_second_def example_extract_id
    by (rule reachable_mapping_tick) (simp_all add: two_loops_first_state app_state_init_def)
qed

text \<open>
  Claim C9, as the code has it. A capture is persisted only when the extractor returns
  descriptors and more than 50 keypoints; otherwise the pass changes nothing. A persisted
  capture adds one frame row, holding the location, the current frame counter as sequence
  index, the path of the image file, and the keypoints and descriptors of the capture; and
  one node row for that frame at that position. Edge rows are added only when the sequence
  index is above 0 and the store already has a node of the location at the previous
  position: then the two directed edge rows of distance 0.7 between the new node and the
  first such node. At sequence index 0, and when the location has no node at the previous
  position, no edge row is added. A mapping loop that runs alone from frame counter 0 and
  accepts \<open>k\<close> captures adds \<open>k\<close> frames, \<open>k\<close> nodes and \<open>2 * (k - 1)\<close> edges, each
  of distance 0.7.
\<close>

theorem mapping_persists_frames:
  "(\<not> accepted extract cam \<longrightarrow> mapping_tick extract lid cam sys = sys) \<and>
   (accepted extract (Some frame) \<longrightarrow>
      (let sys' = mapping_tick extract lid (Some frame) sys;
           db = db_store sys;
           sq = mapping_frames (app_state sys);
           fid = lastrowid (map frame_id (frames db));
           nid = lastrowid (map node_id (graph_nodes db));
           prev = previous_nodes db lid sq
       in mapping_frames (app_state sys') = sq + 1 \<and>
          frames (db_store sys') = frames db @
            [\<lparr>frame_id = fid, frame_location_id = lid, sequence_number = sq,
              image_path = ''data/saved_frames/'' @ str_int lid @ ''_'' @ str_int sq @ ''.jpg'',
              keypoints = fst (extract frame), descriptors = snd (extract frame)\<rparr>] \<and>
          graph_nodes (db_store sys') = graph_nodes db @
            [\<lparr>node_id = nid, node_location_id = lid, node_frame_id = fid, position_index = sq\<rparr>] \<and>
          locations (db_store sys') = locations db \<and>
          (sq \<le> 0 \<or> prev = [] \<longrightarrow> graph_edges (db_store sys') = graph_edges db) \<and>
          (0 < sq \<and> prev \<noteq> [] \<longrightarrow>
             graph_edges (db_store sys') = graph_edges db @
               [\<lparr>from_node = node_id (hd prev), to_node = nid, distance = 7 / 10\<rparr>,
                \<lparr>from_node = nid, to_node = node_id (hd prev), distance = 7 / 10\<rparr>]))) \<and>
   (mode (app_state sys) = Mapping \<and> mapping_frames (app_state sys) = 0 \<longrightarrow>
      (let sys' = mapping_loop extract lid cams sys;
           k = length (filter (accepted extract) cams)
       in length (frames (db_store sys')) = length (frames (db_store sys)) + k \<and>
          length (graph_nodes (db_store sys')) = length (graph_nodes (db_store sys)) + k \<and>
          (\<exists>new. graph_edges (db_store sys') = graph_edges (db_store sys) @ new \<and>
                 (\<forall>e \<in> set new. distance e = 7 / 10) \<and>
                 length new = 2 * (k - 1))))"
proof (intro conjI impI)
  assume "\<not> accepted extract cam"
  then show "mapping_tick extract lid cam sys = sys" by (rule mapping_tick_rejected)
next
  assume "accepted extract (Some frame)"
  from mapping_tick_effect [OF this, of lid sys]
  show "(let sys' = mapping_tick extract lid (Some frame) sys;
           db = db_store sys;
           sq = mapping_frames (app_state sys);
           fid = lastrowid (map frame_id (frames db));
           nid = lastrowid (map node_id (graph_nodes db));
           prev = previous_nodes db lid sq
       in mapping_frames (app_state sys') = sq + 1 \<and>
          frames (db_store sys') = frames db @
            [\<lparr>frame_id = fid, frame_location_id = lid, sequence_number = sq,
              image_path = ''data/saved_frames/'' @ str_int lid @ ''_'' @ str_int sq @ ''.jpg'',
              keypoints = fst (extract frame), descriptors = snd (extract frame)\<rparr>] \<and>
          graph_nodes (db_store sys') = graph_nodes db @
            [\<lparr>node_id = nid, node_location_id = lid, node_frame_id = fid, position_index = sq\<rparr>] \<and>
          locations (db_store sys') = locations db \<and>
          (sq \<le> 0 \<or> prev = [] \<longrightarrow> graph_edges (db_store sys') = graph_edges db) \<and>
          (0 < sq \<and> prev \<noteq> [] \<longrightarrow>
             graph_edges (db_store sys') = graph_edges db @
               [\<lparr>from_node = node_id (hd prev), to_node = nid, distance = 7 / 10\<rparr>,
                \<lparr>from_node = nid, to_node = node_id (hd prev), distance = 7 / 10\<rparr>]))"
    by (simp add: Let_def)
next
  assume a: "mode (app_state sys) = Mapping \<and> mapping_frames (app_state sys) = 0"
  then have p: "positions_mapped sys lid" by (simp add: positions_mapped_def)
  from a have m: "mode (app_state sys) = Mapping" and z: "0 \<le> mapping_frames (app_state sys)"
    by simp_all
  from mapping_loop_counts [OF m p z, of "extract" "cams"] a
  show "(let sys' = mapping_loop extract lid cams sys;
           k = length (filter (accepted extract) cams)
       in length (frames (db_store sys')) = length (frames (db_store sys)) + k \<and>
          length (graph_nodes (db_store sys')) = length (graph_nodes (db_store sys)) + k \<and>
          (\<exists>new. graph_edges (db_store sys') = graph_edges (db_store sys) @ new \<and>
                 (\<forall>e \<in> set new. distance e = 7 / 10) \<and>
                 length new = 2 * (k - 1)))"
    by (simp add: Let_def)
qed

theorem mapping_persists_frames_witness:
  "mapping_tick example_extract 1 (example_capture 50) kitchen_mapping = kitchen_mapping \<and>
   mapping_frames (app_state kitchen_first) = 1 \<and>
   frames (db_store kitchen_first) =
     [\<lparr>frame_id = 1, frame_location_id = 1, sequence_number = 0,
       image_path = ''data/saved_frames/1_0.jpg'',
       keypoints = replicate 80 example_keypoint, descriptors = Some (replicate 80 [0])\<rparr>] \<and>
   graph_nodes (db_store kitchen_first) =
     [\<lparr>node_id = 1, node_location_id = 1, node_frame_id = 1, position_index = 0\<rparr>] \<and>
   graph_edges (db_store kitchen_first) = [] \<and>
   frames (db_store kitchen_second) = frames (db_store kitchen_first) @
     [\<lparr>frame_id = 2, frame_location_id = 1, sequence_number = 1,
       image_path = ''data/saved_frames/1_1.jpg'',
       keypoints = replicate 60 example_keypoint, descriptors = Some (replicate 60 [0])\<rparr>] \<and>
   graph_edges (db_store kitchen_second) =
     [\<lparr>from_node = 1, to_node = 2, distance = 7 / 10\<rparr>,
      \<lparr>from_node = 2, to_node = 1, distance = 7 / 10\<rparr>] \<and>
   length (frames (db_store kitchen_mapped)) = 3 \<and>
   length (graph_nodes (db_store kitchen_mapped)) = 3 \<and>
   length (graph_edges (db_store kitchen_mapped)) = 4 \<and>
   map distance (graph_edges (db_store kitchen_mapped)) = [7 / 10, 7 / 10, 7 / 10, 7 / 10]"
proof -
  let ?img = "\<lambda>n. (replicate n example_keypoint, Some (replicate n [0::nat]))"
  have r: "\<not> accepted example_extract (example_capture 50)"
    by (simp add: accepted_def example_capture_def example_extract_def)
  have a: "accepted example_extract (Some (?img 80))" "accepted example_extract (Some (?img 60))"
    by (simp_all add: accepted_def example_extract_def)
  have k: "length (filter (accepted example_extract) kitchen_captures) = 3"
    by (simp add: kitchen_captures_def accepted_def example_capture_def example_extract_def)
  have m: "mode (app_state kitchen_mapping) = Mapping \<and> mapping_frames (app_state kitchen_mapping) = 0"
    by (simp add: kitchen_mapping_state app_state_init_def)
  have e: "frames (db_store kitchen_mapping) = []" "graph_nodes (db_store kitchen_mapping) = []"
    "graph_edges (db_store kitchen_mapping) = []"
    by (simp_all add: kitchen_mapping_state init_database_def)
  have p: "previous_nodes (db_store kitchen_first) 1 1 =
             [\<lparr>node_id = 1, node_location_id = 1, node_frame_id = 1, position_index = 0\<rparr>]"
    by (simp add: previous_nodes_def kitchen_first_state)
  from mapping_persists_frames [of example_extract "example_capture 50" 1 kitchen_mapping] r
  have 1: "mapping_tick example_extract 1 (example_capture 50) kitchen_mapping = kitchen_mapping"
    by blast
  from mapping_persists_frames [of example_extract _ 1 kitchen_mapping "?img 80"] a(1) m
  have 2: "mapping_frames (app_state kitchen_first) = 1 \<and>
     frames (db_store kitchen_first) =
       [\<lparr>frame_id = 1, frame_location_id = 1, sequence_number = 0,
         image_path = ''data/saved_frames/1_0.jpg'',
         keypoints = replicate 80 example_keypoint, descriptors = Some (replicate 80 [0])\<rparr>] \<and>
     graph_nodes (db_store kitchen_first) =
       [\<lparr>node_id = 1, node_location_id = 1, node_frame_id = 1, position_index = 0\<rparr>] \<and>
     graph_edges (db_store kitchen_first) = []"
    unfolding kitchen_first_def example_capture_def Let_def e
    by (simp add: lastrowid_def str_int_small example_extract_def)
  from mapping_persists_frames [of example_extract _ 1 kitchen_first "?img 60"] a(2)
  have 3: "frames (db_store kitchen_second) = frames (db_store kitchen_first) @
       [\<lparr>frame_id = 2, frame_location_id = 1, sequence_number = 1,
         image_path = ''data/saved_frames/1_1.jpg'',
         keypoints = replicate 60 example_keypoint, descriptors = Some (replicate 60 [0])\<rparr>] \<and>
     graph_edges (db_store kitchen_second) =
       [\<lparr>from_node = 1, to_node = 2, distance = 7 / 10\<rparr>,
        \<lparr>from_node = 2, to_node = 1, distance = 7 / 10\<rparr>]"
    unfolding kitchen_second_def example_capture_def Let_def
    by (simp add: kitchen_first_state lastrowid_def str_int_small example_extract_def
        app_state_init_def p)
  from mapping_persists_frames [of example_extract _ 1 kitchen_mapping _ kitchen_captures] m
  have 4: "length (frames (db_store kitchen_mapped)) = 3 \<and>
           length (graph_nodes (db_store kitchen_mapped)) = 3 \<and>
           length (graph_edges (db_store kitchen_mapped)) = 4"
    unfolding kitchen_mapped_def [symmetric] Let_def k e by auto
  from 1 2 3 4 show ?thesis by (simp add: kitchen_mapped_store)
qed

text \<open>
  The claim as the specification states it (every persisted frame above sequence index 0
  gets its pair of edges to the node at the previous index) fails in a reachable state.
  With the mapping loops of "kitchen" and "hall" both running on the one frame counter,
  the kitchen loop saves sequence index 0 and the hall loop then saves sequence index 1:
  the capture is accepted and persisted with its node, location 2 has no node at position
  0, and no edge row is written.
\<close>

theorem mapping_no_edge_counterexample:
  "reachable two_loops_first \<and> reachable two_loops_second \<and>
   mode (app_state two_loops_first) = Mapping \<and>
   threads two_loops_first = [MappingLoop 1, MappingLoop 2] \<and>
   mapping_frames (app_state two_loops_first) = 1 \<and>
   accepted example_extract (example_capture 60) \<and>
   two_loops_second = mapping_tick example_extract 2 (example_capture 60) two_loops_first \<and>
   frames (db_store two_loops_second) = frames (db_store two_loops_first) @
     [\<lparr>frame_id = 2, frame_location_id = 2, sequence_number = 1,
       image_path = ''data/saved_frames/2_1.jpg'',
       keypoints = replicate 60 example_keypoint, descriptors = Some (replicate 60 [0])\<rparr>] \<and>
   graph_nodes (db_store two_loops_second) =
     [\<lparr>node_id = 1, node_location_id = 1, node_frame_id = 1, position_index = 0\<rparr>,
      \<lparr>node_id = 2, node_location_id = 2, node_frame_id = 2, position_index = 1\<rparr>] \<and>
   graph_edges (db_store two_loops_second) = []"
proof -
  have "accepted example_extract (example_capture 60)"
    by (simp add: accepted_def example_capture_def example_extract_def)
  moreover have "frames (db_store two_loops_second) = frames (db_store two_loops_first) @
     [\<lparr>frame_id = 2, frame_location_id = 2, sequence_number = 1,
       image_path = ''data/saved_frames/2_1.jpg'',
       keypoints = replicate 60 example_keypoint, descriptors = Some (replicate 60 [0])\<rparr>]"
    "graph_nodes (db_store two_loops_second) =
     [\<lparr>node_id = 1, node_location_id = 1, node_frame_id = 1, position_index = 0\<rparr>,
      \<lparr>node_id = 2, node_location_id = 2, node_frame_id = 2, position_index = 1\<rparr>]"
    "graph_edges (db_store two_loops_second) = []"
    by (simp_all add: two_loops_second_def example_capture_def mapping_tick_def
        example_extract_def two_loops_first_state save_frame_def lastrowid_def Let_def
        app_state_init_def str_int_small)
  ultimately show ?thesis
    using two_loops_reachable
    by (simp add: two_loops_first_state app_state_init_def two_loops_second_def)
qed

section \<open>The A* planner on path graphs\<close>



































end
